theory Spec2Isabelle
  imports Main "HOL-Library.Sublist"
begin

section \<open>Python string primitives\<close>

text \<open>
  A Python \<open>str\<close> is modelled as a \<open>string\<close>, one \<open>char\<close> per code point (so the
  model covers the code points below 256). \<open>dq\<close> is the double quote, \<open>nl\<close> the line feed.
\<close>

abbreviation dq :: char where "dq \<equiv> CHR 0x22"
abbreviation nl :: char where "nl \<equiv> CHR 0x0A"

text \<open>
  \<open>s.replace(old, new)\<close>: the occurrences of \<open>old\<close> are found from left to right and do
  not overlap; with an empty \<open>old\<close> Python puts \<open>new\<close> before every character and at the end.
\<close>

function replace_str :: "string \<Rightarrow> string \<Rightarrow> string \<Rightarrow> string" where
  "replace_str old new [] = (if old = [] then new else [])"
| "replace_str old new (c # cs) =
     (if old = [] then new @ c # replace_str old new cs
      else if prefix old (c # cs) then new @ replace_str old new (drop (length old) (c # cs))
      else c # replace_str old new cs)"
  by pat_completeness auto
termination
  by (relation "measure (\<lambda>(old, new, s). length s)") auto

text \<open>\<open>sep.join(xs)\<close>\<close>

fun join :: "string \<Rightarrow> string list \<Rightarrow> string" where
  "join sep [] = []"
| "join sep [x] = x"
| "join sep (x # y # ys) = x @ sep @ join sep (y # ys)"

section \<open>Identifier sanitizer and quote escaping\<close>

text \<open>
  \<open>sanitize_node_id\<close> takes the \<open>str()\<close> image of the identifier (an identifier that is a
  \<open>SpdxNoAssertion\<close> or \<open>SpdxNone\<close> object is stringified first, as the source does).
\<close>

definition sanitize_node_id :: "string \<Rightarrow> string" where
  "sanitize_node_id spdx_id_str =
     replace_str ''.'' ''_'' (replace_str ''-'' ''_'' (replace_str ''SPDXRef-'' '''' spdx_id_str))"

definition escape_quotes :: "string \<Rightarrow> string" where
  "escape_quotes text = replace_str [dq] [CHR 0x27] text"

section \<open>Element dictionaries\<close>

text \<open>
  An element dictionary (\<open>Dict[str, Any]\<close>) is a record with one field per key that
  \<open>extract_elements_from_document\<close> can store. A field says whether the key is in the
  dictionary (\<open>Absent\<close> when it is not), and whether its value is \<open>None\<close> (\<open>PNone\<close>) or
  a value of the type that the extractor stores under the key (\<open>PVal\<close>): a string, a
  boolean for \<open>filesAnalyzed\<close>, a list of strings for \<open>creators\<close>, a list of
  dictionaries of strings for \<open>checksums\<close> and \<open>externalRefs\<close>. So \<open>str(v)\<close> of a string
  value is the value, and the \<open>isinstance\<close> tests of the formatter are true. The key
  \<open>type\<close> is the field \<open>etype\<close>.
\<close>

datatype 'a entry = Absent | PNone | PVal 'a

record checksum_dict =
  algorithm :: string
  checksumValue :: string

record external_ref_dict =
  referenceType :: string
  referenceLocator :: string
  referenceCategory :: string

record element_data =
  etype :: string
  name :: "string entry"
  version :: "string entry"
  namespace :: "string entry"
  created :: "string entry"
  creators :: "string list entry"
  dataLicense :: "string entry"
  downloadLocation :: "string entry"
  filesAnalyzed :: "bool entry"
  supplier :: "string entry"
  originator :: "string entry"
  homepage :: "string entry"
  licenseConcluded :: "string entry"
  licenseDeclared :: "string entry"
  licenseComments :: "string entry"
  copyrightText :: "string entry"
  comment :: "string entry"
  summary :: "string entry"
  primaryPackagePurpose :: "string entry"
  checksums :: "checksum_dict list entry"
  verificationCode :: "string entry"
  packageFileName :: "string entry"
  externalRefs :: "external_ref_dict list entry"

text \<open>The dictionary that holds the key \<open>type\<close> only.\<close>

definition only_type :: "string \<Rightarrow> element_data" where
  "only_type t = \<lparr> etype = t, name = Absent, version = Absent, namespace = Absent,
     created = Absent, creators = Absent, dataLicense = Absent, downloadLocation = Absent,
     filesAnalyzed = Absent, supplier = Absent, originator = Absent, homepage = Absent,
     licenseConcluded = Absent, licenseDeclared = Absent, licenseComments = Absent,
     copyrightText = Absent, comment = Absent, summary = Absent,
     primaryPackagePurpose = Absent, checksums = Absent, verificationCode = Absent,
     packageFileName = Absent, externalRefs = Absent \<rparr>"

text \<open>
  \<open>"k" in d and d["k"]\<close>: the value when the key is there and its value is truthy
  (a non-empty string, a non-empty list).
\<close>

fun truthy :: "'a list entry \<Rightarrow> 'a list option" where
  "truthy (PVal v) = (if v = [] then None else Some v)"
| "truthy PNone = None"
| "truthy Absent = None"

text \<open>\<open>str(v)\<close> of the value of the key \<open>filesAnalyzed\<close>.\<close>

fun str_of_flag :: "bool entry \<Rightarrow> string" where
  "str_of_flag (PVal b) = (if b then ''True'' else ''False'')"
| "str_of_flag PNone = ''None''"
| "str_of_flag Absent = ''None''"

section \<open>Label formatter\<close>

text \<open>
  The pattern \<open>if len(x) > L: x = x[:K] + "..."\<close> that the formatter repeats, with the two
  constants of each place kept apart.
\<close>

definition truncate_at :: "nat \<Rightarrow> nat \<Rightarrow> string \<Rightarrow> string" where
  "truncate_at L K x = (if length x > L then take K x @ ''...'' else x)"

text \<open>A line \<open>f"Label: {escape_quotes(str(d[k]))}"\<close> under the guard \<open>k in d and d[k]\<close>.\<close>

definition plain_line :: "string \<Rightarrow> string entry \<Rightarrow> string list" where
  "plain_line label e = (case truthy e of Some v \<Rightarrow> [label @ escape_quotes v] | None \<Rightarrow> [])"

text \<open>The same with the escaped value cut to \<open>L\<close> characters.\<close>

definition cut_line :: "string \<Rightarrow> nat \<Rightarrow> nat \<Rightarrow> string entry \<Rightarrow> string list" where
  "cut_line label L K e =
     (case truthy e of Some v \<Rightarrow> [label @ truncate_at L K (escape_quotes v)] | None \<Rightarrow> [])"

definition header_lines :: "string \<Rightarrow> element_data \<Rightarrow> string \<Rightarrow> string list" where
  "header_lines element_id d element_type =
     [case truthy (primaryPackagePurpose d) of
        Some purpose \<Rightarrow> ''['' @ element_type @ '' - '' @ purpose @ '']''
      | None \<Rightarrow> ''['' @ element_type @ '']'']
     @ [case truthy (name d) of
          Some n \<Rightarrow> ''Name: '' @ escape_quotes n
        | None \<Rightarrow> ''ID: '' @ escape_quotes element_id]"

definition checksum_line :: "checksum_dict \<Rightarrow> string" where
  "checksum_line c = algorithm c @ '': '' @ take 12 (checksumValue c) @ ''...''"

definition checksum_lines :: "checksum_dict list entry \<Rightarrow> string list" where
  "checksum_lines e =
     (case truthy e of Some cs \<Rightarrow> map checksum_line (take 2 cs) | None \<Rightarrow> [])"

definition files_analyzed_lines :: "bool entry \<Rightarrow> string list" where
  "files_analyzed_lines e =
     (if e \<noteq> Absent then [''Files Analyzed: '' @ str_of_flag e] else [])"

definition verification_lines :: "string entry \<Rightarrow> string list" where
  "verification_lines e =
     (case truthy e of Some v \<Rightarrow> [''Verification: '' @ v] | None \<Rightarrow> [])"

definition optional_lines :: "element_data \<Rightarrow> string list" where
  "optional_lines d =
     cut_line ''Download: '' 50 47 (downloadLocation d)
     @ plain_line ''Supplier: '' (supplier d)
     @ plain_line ''Originator: '' (originator d)
     @ files_analyzed_lines (filesAnalyzed d)
     @ verification_lines (verificationCode d)
     @ checksum_lines (checksums d)
     @ cut_line ''Copyright: '' 40 37 (copyrightText d)
     @ cut_line ''Comment: '' 50 47 (comment d)
     @ plain_line ''Homepage: '' (homepage d)"

definition creators_lines :: "string list entry \<Rightarrow> string list" where
  "creators_lines e =
     (case truthy e of
        Some cs \<Rightarrow> [''Creators: '' @ escape_quotes (truncate_at 50 47 (join '', '' cs))]
      | None \<Rightarrow> [])"

definition document_lines :: "element_data \<Rightarrow> string list" where
  "document_lines d =
     plain_line ''Created: '' (created d)
     @ creators_lines (creators d)
     @ cut_line ''Namespace: '' 50 47 (namespace d)
     @ plain_line ''Data License: '' (dataLicense d)"

definition external_ref_line :: "external_ref_dict \<Rightarrow> string" where
  "external_ref_line r =
     referenceType r @ '': '' @ escape_quotes (truncate_at 40 37 (referenceLocator r))"

definition external_ref_lines :: "bool \<Rightarrow> external_ref_dict list entry \<Rightarrow> string list" where
  "external_ref_lines compact e =
     (case truthy e of
        Some refs \<Rightarrow> map external_ref_line (take (if compact then 1 else 2) refs)
      | None \<Rightarrow> [])"

definition package_lines :: "element_data \<Rightarrow> bool \<Rightarrow> bool \<Rightarrow> string list" where
  "package_lines d compact exclude_external_refs =
     (if \<not> compact then plain_line ''License Declared: '' (licenseDeclared d) else [])
     @ (if \<not> compact then cut_line ''Package File: '' 50 47 (packageFileName d) else [])
     @ (if \<not> exclude_external_refs then external_ref_lines compact (externalRefs d) else [])"

definition label_lines ::
  "string \<Rightarrow> element_data \<Rightarrow> string \<Rightarrow> bool \<Rightarrow> bool \<Rightarrow> string list" where
  "label_lines element_id d element_type compact exclude_external_refs =
     header_lines element_id d element_type
     @ cut_line ''Summary: '' 60 57 (summary d)
     @ plain_line ''Version: '' (version d)
     @ plain_line ''License: '' (licenseConcluded d)
     @ cut_line ''License Note: '' 60 57 (licenseComments d)
     @ (if \<not> compact then optional_lines d else [])
     @ (if element_type = ''Document'' \<and> \<not> compact then document_lines d else [])
     @ (if element_type = ''Package'' then package_lines d compact exclude_external_refs
        else [])"

definition format_node_label ::
  "string \<Rightarrow> element_data \<Rightarrow> string \<Rightarrow> bool \<Rightarrow> bool \<Rightarrow> string" where
  "format_node_label element_id d element_type compact exclude_external_refs =
     join [nl] (label_lines element_id d element_type compact exclude_external_refs)"

section \<open>The parsed document\<close>

text \<open>
  The classes of the parsing library (\<open>Document\<close>, \<open>CreationInfo\<close>, \<open>Package\<close>, \<open>File\<close>,
  \<open>Snippet\<close>, \<open>Relationship\<close>) are not part of the repository; they are taken as records of
  the attributes the extractor reads. Every attribute is defined on every object of these
  classes, so each \<open>hasattr\<close> test of the source is true. An optional attribute is an
  \<open>option\<close>. An attribute whose value is an object of the library (an actor, a license
  expression, a date, an enum member, a \<open>SpdxNoAssertion\<close> or \<open>SpdxNone\<close> marker) holds the
  \<open>str()\<close> image of the object, which is what the extractor stores; the attribute
  \<open>r_relationship_type\<close> holds the \<open>name\<close> of the enum member.
\<close>

record creation_info =
  ci_spdx_version :: string
  ci_spdx_id :: string
  ci_name :: string
  ci_document_namespace :: string
  ci_creators :: "string list"
  ci_created :: string
  ci_data_license :: string

record package =
  p_spdx_id :: string
  p_name :: string
  p_version :: "string option"
  p_download_location :: string
  p_files_analyzed :: bool
  p_supplier :: "string option"
  p_originator :: "string option"
  p_homepage :: "string option"
  p_license_concluded :: "string option"
  p_license_declared :: "string option"
  p_license_comment :: "string option"
  p_copyright_text :: "string option"
  p_comment :: "string option"
  p_summary :: "string option"
  p_primary_package_purpose :: "string option"
  p_checksums :: "(string \<times> string) list"
  p_verification_code :: "string option"
  p_file_name :: "string option"
  p_external_references :: "(string \<times> string \<times> string) list"

record spdx_file =
  f_spdx_id :: string
  f_name :: string
  f_license_concluded :: "string option"
  f_copyright_text :: "string option"
  f_comment :: "string option"
  f_checksums :: "(string \<times> string) list"

record snippet =
  s_spdx_id :: string
  s_name :: "string option"
  s_comment :: "string option"
  s_license_concluded :: "string option"
  s_copyright_text :: "string option"

record relationship =
  r_spdx_element_id :: string
  r_relationship_type :: string
  r_related_spdx_element_id :: string
  r_comment :: "string option"

record document =
  creation_info :: creation_info
  packages :: "package list"
  files :: "spdx_file list"
  snippets :: "snippet list"
  relationships :: "relationship list"

section \<open>Insertion-ordered dictionaries\<close>

text \<open>
  The dictionary of elements keeps its keys in insertion order; storing under a key that
  is already there replaces the value and leaves the key where it is.
\<close>

type_synonym elements = "(string \<times> element_data) list"

fun dict_set :: "'k \<Rightarrow> 'v \<Rightarrow> ('k \<times> 'v) list \<Rightarrow> ('k \<times> 'v) list" where
  "dict_set k v [] = [(k, v)]"
| "dict_set k v ((k', v') # d) = (if k' = k then (k', v) # d else (k', v') # dict_set k v d)"

text \<open>\<open>d.update(other)\<close>, and \<open>dict(items)\<close>\<close>

definition dict_update :: "('k \<times> 'v) list \<Rightarrow> ('k \<times> 'v) list \<Rightarrow> ('k \<times> 'v) list" where
  "dict_update d other = fold (\<lambda>(k, v). dict_set k v) other d"

definition dict_of_items :: "('k \<times> 'v) list \<Rightarrow> ('k \<times> 'v) list" where
  "dict_of_items items = dict_update [] items"

text \<open>\<open>xs[:n]\<close>, where a negative \<open>n\<close> counts from the end\<close>

definition slice_to :: "int \<Rightarrow> 'a list \<Rightarrow> 'a list" where
  "slice_to n xs = (if 0 \<le> n then take (nat n) xs else take (length xs - nat (- n)) xs)"

section \<open>Extractor\<close>

text \<open>
  \<open>x if x else None\<close> and \<open>str(x) if x else None\<close> for an attribute \<open>x\<close> that is \<open>None\<close>, a
  string (falsy when empty) or a marker object (its \<open>str()\<close> image is not empty)
\<close>

fun str_or_none :: "string option \<Rightarrow> string entry" where
  "str_or_none (Some x) = (if x = [] then PNone else PVal x)"
| "str_or_none None = PNone"

text \<open>
  \<open>str(x) if x is not None else None\<close>, and \<open>str(x) if x else None\<close> for an attribute \<open>x\<close>
  that is \<open>None\<close> or an object of the library, which is truthy
\<close>

fun obj_or_none :: "string option \<Rightarrow> string entry" where
  "obj_or_none (Some x) = PVal x"
| "obj_or_none None = PNone"

definition checksum_dicts :: "(string \<times> string) list \<Rightarrow> checksum_dict list" where
  "checksum_dicts cs = map (\<lambda>(a, v). \<lparr> algorithm = a, checksumValue = v \<rparr>) cs"

definition external_ref_dicts :: "(string \<times> string \<times> string) list \<Rightarrow> external_ref_dict list" where
  "external_ref_dicts rs =
     map (\<lambda>(t, l, c). \<lparr> referenceType = t, referenceLocator = l, referenceCategory = c \<rparr>) rs"

definition document_data :: "document \<Rightarrow> element_data" where
  "document_data doc = (only_type ''Document'')
     \<lparr> name := PVal (ci_name (creation_info doc)),
       version := PVal (ci_spdx_version (creation_info doc)),
       namespace := PVal (ci_document_namespace (creation_info doc)),
       created := PVal (ci_created (creation_info doc)),
       creators := PVal (ci_creators (creation_info doc)),
       dataLicense := PVal (ci_data_license (creation_info doc)) \<rparr>"

definition pkg_data :: "package \<Rightarrow> element_data" where
  "pkg_data p = (only_type ''Package'')
     \<lparr> name := PVal (p_name p),
       version := str_or_none (p_version p),
       downloadLocation := PVal (p_download_location p),
       filesAnalyzed := PVal (p_files_analyzed p),
       supplier := obj_or_none (p_supplier p),
       originator := obj_or_none (p_originator p),
       homepage := str_or_none (p_homepage p),
       licenseConcluded := obj_or_none (p_license_concluded p),
       licenseDeclared := obj_or_none (p_license_declared p),
       licenseComments := str_or_none (p_license_comment p),
       copyrightText := str_or_none (p_copyright_text p),
       comment := str_or_none (p_comment p),
       summary := str_or_none (p_summary p),
       primaryPackagePurpose := obj_or_none (p_primary_package_purpose p),
       checksums := PVal (checksum_dicts (p_checksums p)),
       verificationCode := obj_or_none (p_verification_code p),
       packageFileName := str_or_none (p_file_name p),
       externalRefs := PVal (external_ref_dicts (p_external_references p)) \<rparr>"

definition file_data :: "spdx_file \<Rightarrow> element_data" where
  "file_data f = (only_type ''File'')
     \<lparr> name := PVal (f_name f),
       licenseConcluded := obj_or_none (f_license_concluded f),
       copyrightText := str_or_none (f_copyright_text f),
       comment := str_or_none (f_comment f),
       checksums := PVal (checksum_dicts (f_checksums f)) \<rparr>"

definition snippet_data :: "snippet \<Rightarrow> element_data" where
  "snippet_data s = (only_type ''Snippet'')
     \<lparr> name := PVal (case s_name s of
                      Some n \<Rightarrow> if n = [] then s_spdx_id s else n
                    | None \<Rightarrow> s_spdx_id s),
       comment := str_or_none (s_comment s),
       licenseConcluded := obj_or_none (s_license_concluded s),
       copyrightText := str_or_none (s_copyright_text s) \<rparr>"

definition extract_elements_from_document :: "document \<Rightarrow> elements" where
  "extract_elements_from_document doc =
     fold (\<lambda>s. dict_set (s_spdx_id s) (snippet_data s)) (snippets doc)
       (fold (\<lambda>f. dict_set (f_spdx_id f) (file_data f)) (files doc)
         (fold (\<lambda>p. dict_set (p_spdx_id p) (pkg_data p)) (packages doc)
           (dict_set ''SPDXRef-DOCUMENT'' (document_data doc) [])))"

section \<open>Diagram emitter\<close>

definition is_package :: "string \<times> element_data \<Rightarrow> bool" where
  "is_package kv = (etype (snd kv) = ''Package'')"

text \<open>The block "Limit packages if requested" of \<open>generate_mermaid_diagram\<close>.\<close>

definition limit_packages :: "int option \<Rightarrow> elements \<Rightarrow> elements" where
  "limit_packages max_packages els =
     (case max_packages of
        None \<Rightarrow> els
      | Some n \<Rightarrow>
          (let package_elements = filter is_package els in
           if int (length package_elements) > n
           then (let limited_packages = dict_of_items (slice_to n package_elements)
                 in dict_update (filter (\<lambda>kv. \<not> is_package kv) els) limited_packages)
           else els))"

definition node_line :: "string \<Rightarrow> string \<Rightarrow> string" where
  "node_line node_id label = ''    '' @ node_id @ ''['' @ [dq] @ label @ [dq] @ '']''"

definition style_line :: "string \<Rightarrow> string \<Rightarrow> string" where
  "style_line node_id colours = ''    style '' @ node_id @ '' '' @ colours"

text \<open>The body of the loop over the elements: the lines it appends.\<close>

definition node_statements :: "bool \<Rightarrow> bool \<Rightarrow> string \<times> element_data \<Rightarrow> string list" where
  "node_statements compact exclude_external_refs kv =
     (let element_id = fst kv; element_data = snd kv;
          node_id = sanitize_node_id element_id;
          element_type = etype element_data;
          label = format_node_label element_id element_data element_type compact
                    exclude_external_refs
      in if element_type = ''Document'' then
           [node_line node_id label,
            style_line node_id ''fill:#e1f5ff,stroke:#01579b,stroke-width:3px'']
         else if element_type = ''Package'' then
           [node_line node_id label,
            (case truthy (primaryPackagePurpose element_data) of
               Some purpose \<Rightarrow>
                 if sublist ''SOURCE'' purpose
                 then style_line node_id ''fill:#fff3e0,stroke:#e65100,stroke-width:2px''
                 else if sublist ''APPLICATION'' purpose
                 then style_line node_id ''fill:#f3e5f5,stroke:#4a148c,stroke-width:2px''
                 else style_line node_id ''fill:#f3e5f5,stroke:#4a148c,stroke-width:2px''
             | None \<Rightarrow> style_line node_id ''fill:#f3e5f5,stroke:#4a148c,stroke-width:2px'')]
         else if element_type = ''File'' then
           [node_line node_id label,
            style_line node_id ''fill:#e8f5e9,stroke:#1b5e20,stroke-width:2px'']
         else if element_type = ''Snippet'' then
           [node_line node_id label,
            style_line node_id ''fill:#fff3e0,stroke:#e65100,stroke-width:2px'']
         else [])"

text \<open>The body of the loop over the relationships: the line it appends.\<close>

definition edge_label :: "relationship \<Rightarrow> string" where
  "edge_label r =
     (case str_or_none (r_comment r) of
        PVal c \<Rightarrow> r_relationship_type r @ ''<br/>'' @ escape_quotes c
      | _ \<Rightarrow> r_relationship_type r)"

definition edge_statement :: "relationship \<Rightarrow> string" where
  "edge_statement r =
     ''    '' @ sanitize_node_id (r_spdx_element_id r) @ '' -->|'' @ [dq] @ edge_label r
     @ [dq] @ ''| '' @ sanitize_node_id (r_related_spdx_element_id r)"

definition legend_lines :: "string list" where
  "legend_lines =
     [[], ''    %% Legend'',
      ''    legend['' @ [dq]
        @ ''Legend:<br/>Blue = Document<br/>Purple = Package (APPLICATION)<br/>Orange = Package (SOURCE)<br/>Green = File<br/>Orange = Snippet''
        @ [dq] @ '']'',
      ''    style legend fill:#fafafa,stroke:#666,stroke-width:1px,stroke-dasharray: 5 5'']"

definition node_lines :: "document \<Rightarrow> bool \<Rightarrow> int option \<Rightarrow> bool \<Rightarrow> string list" where
  "node_lines doc compact max_packages exclude_external_refs =
     concat (map (node_statements compact exclude_external_refs)
       (limit_packages max_packages (extract_elements_from_document doc)))"

definition diagram_lines :: "document \<Rightarrow> bool \<Rightarrow> int option \<Rightarrow> bool \<Rightarrow> string list" where
  "diagram_lines doc compact max_packages exclude_external_refs =
     [''graph LR'']
     @ node_lines doc compact max_packages exclude_external_refs
     @ map edge_statement (relationships doc)
     @ legend_lines"

definition generate_mermaid_diagram :: "document \<Rightarrow> bool \<Rightarrow> int option \<Rightarrow> bool \<Rightarrow> string" where
  "generate_mermaid_diagram doc compact max_packages exclude_external_refs =
     join [nl] (diagram_lines doc compact max_packages exclude_external_refs)"

section \<open>The extraction order of the specification\<close>

text \<open>
  The order the specification gives for the extracted elements: the document, then the
  packages, the files and the snippets, each group in source order. It is compared with
  the order of the dictionary that the extractor builds.
\<close>

definition document_entry :: "document \<Rightarrow> string \<times> element_data" where
  "document_entry doc = (''SPDXRef-DOCUMENT'', document_data doc)"

definition package_entries :: "document \<Rightarrow> elements" where
  "package_entries doc = map (\<lambda>p. (p_spdx_id p, pkg_data p)) (packages doc)"

definition file_entries :: "document \<Rightarrow> elements" where
  "file_entries doc = map (\<lambda>f. (f_spdx_id f, file_data f)) (files doc)"

definition snippet_entries :: "document \<Rightarrow> elements" where
  "snippet_entries doc = map (\<lambda>s. (s_spdx_id s, snippet_data s)) (snippets doc)"

definition element_ids :: "document \<Rightarrow> string list" where
  "element_ids doc =
     ''SPDXRef-DOCUMENT'' # map p_spdx_id (packages doc) @ map f_spdx_id (files doc)
       @ map s_spdx_id (snippets doc)"

section \<open>Example inputs\<close>

definition plain_package :: "string \<Rightarrow> string \<Rightarrow> package" where
  "plain_package i n =
     \<lparr> p_spdx_id = i, p_name = n, p_version = None, p_download_location = ''NOASSERTION'',
       p_files_analyzed = True, p_supplier = None, p_originator = None, p_homepage = None,
       p_license_concluded = None, p_license_declared = None, p_license_comment = None,
       p_copyright_text = None, p_comment = None, p_summary = None,
       p_primary_package_purpose = None, p_checksums = [], p_verification_code = None,
       p_file_name = None, p_external_references = [] \<rparr>"

definition plain_file :: "string \<Rightarrow> string \<Rightarrow> spdx_file" where
  "plain_file i n =
     \<lparr> f_spdx_id = i, f_name = n, f_license_concluded = None, f_copyright_text = None,
       f_comment = None, f_checksums = [] \<rparr>"

definition plain_creation_info :: "string \<Rightarrow> creation_info" where
  "plain_creation_info i =
     \<lparr> ci_spdx_version = ''SPDX-2.3'', ci_spdx_id = i, ci_name = ''doc'',
       ci_document_namespace = ''ns'', ci_creators = [''Tool: t''],
       ci_created = ''2025-11-27 15:17:19'', ci_data_license = ''CC0-1.0'' \<rparr>"

text \<open>Two packages and a file.\<close>

definition two_packages_one_file :: document where
  "two_packages_one_file =
     \<lparr> creation_info = plain_creation_info ''SPDXRef-DOCUMENT'',
       packages = [plain_package ''SPDXRef-A'' ''a'', plain_package ''SPDXRef-B'' ''b''],
       files = [plain_file ''SPDXRef-F'' ''f''],
       snippets = [],
       relationships = [] \<rparr>"

text \<open>A document whose own identifier is \<open>i\<close>, with a relationship that names it.\<close>

definition described_by :: "string \<Rightarrow> document" where
  "described_by i =
     \<lparr> creation_info = plain_creation_info i,
       packages = [plain_package ''SPDXRef-A'' ''a''],
       files = [],
       snippets = [],
       relationships =
         [\<lparr> r_spdx_element_id = i, r_relationship_type = ''DESCRIBES'',
            r_related_spdx_element_id = ''SPDXRef-A'', r_comment = None \<rparr>] \<rparr>"

section \<open>The truncation rule of the specification\<close>

text \<open>
  The rule in the specification's words: a string that exceeds its limit \<open>L\<close> keeps its
  first \<open>L - 3\<close> characters and gets three dots appended. It is compared with what the
  formatter does at each truncated field.
\<close>

definition spec_truncate :: "nat \<Rightarrow> string \<Rightarrow> string" where
  "spec_truncate L s = (if L < length s then take (L - 3) s @ ''...'' else s)"

text \<open>A source attribute that is neither absent nor empty.\<close>

fun nonempty :: "string option \<Rightarrow> string option" where
  "nonempty (Some s) = (if s = [] then None else Some s)"
| "nonempty None = None"

section \<open>Example element data\<close>

text \<open>A file with one checksum whose value has three characters.\<close>

definition short_checksum_file :: spdx_file where
  "short_checksum_file =
     (plain_file ''SPDXRef-F'' ''f'')\<lparr> f_checksums := [(''ChecksumAlgorithm.SHA1'', ''abc'')] \<rparr>"

text \<open>A package whose summary has 61 characters, with a checksum of 16 characters.\<close>

definition long_summary :: string where
  "long_summary = ''0123456789012345678901234567890123456789012345678901234567890''"

definition long_summary_package :: package where
  "long_summary_package =
     (plain_package ''SPDXRef-P'' ''p'')
       \<lparr> p_summary := Some long_summary,
         p_checksums := [(''ChecksumAlgorithm.MD5'', ''0123456789abcdef'')] \<rparr>"

text \<open>A package whose verification code holds a double quote.\<close>

definition quoted_code_package :: package where
  "quoted_code_package =
     (plain_package ''SPDXRef-P'' ''p'')\<lparr> p_verification_code := Some (''a'' @ [dq] @ ''b'') \<rparr>"

text \<open>An element dictionary whose package purpose holds a double quote.\<close>

definition quoted_purpose_data :: element_data where
  "quoted_purpose_data =
     (only_type ''Package'')
       \<lparr> name := PVal ''p'', primaryPackagePurpose := PVal (''LIB'' @ [dq] @ ''RARY'') \<rparr>"

section \<open>Pre-parse patch of timestamps\<close>

text \<open>
  The regular expression \<open>"(\d{4}-\d{2}-\d{2}T\d{2}:\d{2}:\d{2})"(?!Z)\<close> is a fixed
  sequence of character tests followed by a negative lookahead, so it is modelled as a
  list of tokens matched against a prefix of the text. \<open>\d\<close> is one of the ten ASCII
  digits, the only decimal digits among the code points of the model.
\<close>

datatype tok = Digit | Lit char

definition is_digit :: "char \<Rightarrow> bool" where
  "is_digit c = (c \<in> set ''0123456789'')"

text \<open>The text left after the tokens have matched a prefix, if they do.\<close>

fun match_toks :: "tok list \<Rightarrow> string \<Rightarrow> string option" where
  "match_toks [] s = Some s"
| "match_toks (t # ts) [] = None"
| "match_toks (Digit # ts) (c # cs) = (if is_digit c then match_toks ts cs else None)"
| "match_toks (Lit a # ts) (c # cs) = (if c = a then match_toks ts cs else None)"

text \<open>The group of the pattern, \<open>\d{4}-\d{2}-\d{2}T\d{2}:\d{2}:\d{2}\<close>.\<close>

definition timestamp_group :: "tok list" where
  "timestamp_group =
     [Digit, Digit, Digit, Digit, Lit CHR ''-'', Digit, Digit, Lit CHR ''-'', Digit, Digit,
      Lit CHR ''T'', Digit, Digit, Lit CHR '':'', Digit, Digit, Lit CHR '':'', Digit, Digit]"

definition timestamp_pattern :: "tok list" where
  "timestamp_pattern = Lit dq # timestamp_group @ [Lit dq]"

text \<open>The negative lookahead \<open>(?!Z)\<close> on the text after the tokens.\<close>

fun not_before_Z :: "string \<Rightarrow> bool" where
  "not_before_Z [] = True"
| "not_before_Z (c # cs) = (c \<noteq> CHR ''Z'')"

text \<open>The pattern matches at the start of the text.\<close>

definition match_at :: "string \<Rightarrow> bool" where
  "match_at s =
     (case match_toks timestamp_pattern s of
        None \<Rightarrow> False
      | Some rest \<Rightarrow> not_before_Z rest)"


text \<open>\<open>re.search(timestamp_pattern, content)\<close> finds a match at some position.\<close>

fun re_search :: "string \<Rightarrow> bool" where
  "re_search [] = False"
| "re_search (c # cs) = (match_at (c # cs) \<or> re_search cs)"

text \<open>
  \<open>re.sub(timestamp_pattern, r'"\1Z"', content)\<close>: the matches are taken from left to
  right without overlap; a match of 21 characters is replaced by the quote, the 19
  characters of the group, \<open>Z\<close> and the quote.
\<close>

function re_sub :: "string \<Rightarrow> string" where
  "re_sub [] = []"
| "re_sub (c # cs) =
     (if match_at (c # cs) then dq # take 19 cs @ ''Z'' @ [dq] @ re_sub (drop 20 cs)
      else c # re_sub cs)"
  by pat_completeness auto
termination
  by (relation "measure length") auto

text \<open>
  A \<open>Path\<close> object of \<open>pathlib\<close>, a library outside the repository, is the record of
  what the code reads from it: its string and its \<open>suffix\<close>. The file system maps the
  string of a path to the text of the file there.
\<close>

record path =
  path_str :: string
  path_suffix :: string

type_synonym filesystem = "string \<rightharpoonup> string"

text \<open>\<open>str.lower()\<close> on the code points below 256\<close>

definition lower_char :: "char \<Rightarrow> char" where
  "lower_char c =
     (let n = (of_char c :: nat)
      in if (65 \<le> n \<and> n \<le> 90) \<or> (192 \<le> n \<and> n \<le> 222 \<and> n \<noteq> 215)
         then char_of (n + 32) else c)"

definition lower :: "string \<Rightarrow> string" where
  "lower s = map lower_char s"

text \<open>
  Text-mode reading with universal newlines, as \<open>Path.read_text()\<close> does: \<open>CR LF\<close> and a
  lone \<open>CR\<close> are read as \<open>LF\<close>.
\<close>

fun universal_newlines :: "string \<Rightarrow> string" where
  "universal_newlines [] = []"
| "universal_newlines [c] = (if c = CHR 0x0D then [nl] else [c])"
| "universal_newlines (c # d # cs) =
     (if c = CHR 0x0D
      then (if d = nl then nl # universal_newlines cs else nl # universal_newlines (d # cs))
      else c # universal_newlines (d # cs))"

text \<open>
  Text-mode writing, as a file opened with \<open>mode='w'\<close> and \<open>Path.write_text()\<close> do: every
  \<open>LF\<close> is written as \<open>os.linesep\<close>, the line separator of the platform (\<open>LF\<close> itself on
  a POSIX system).
\<close>

definition write_text_mode :: "string \<Rightarrow> string \<Rightarrow> string" where
  "write_text_mode linesep s = replace_str [nl] linesep s"

text \<open>
  \<open>preprocess_spdx_file\<close>. The file system holds the characters of each file as they are
  stored; the code reads and writes them in text mode. The result is the returned path,
  the file system afterwards, and whether the warning was printed. \<open>linesep\<close> is
  \<open>os.linesep\<close>. \<open>tmp_name\<close> is the name that \<open>NamedTemporaryFile\<close> picks for the file it
  creates (a name of no existing file, with the suffix \<open>.json\<close>), or \<open>None\<close> when creating
  it raises. Reading a file that is not there raises; every exception inside the \<open>try\<close>
  prints the warning and returns the original path.
\<close>

definition preprocess_spdx_file ::
  "string \<Rightarrow> string option \<Rightarrow> filesystem \<Rightarrow> path \<Rightarrow> path \<times> filesystem \<times> bool" where
  "preprocess_spdx_file linesep tmp_name fs file_path =
     (if lower (path_suffix file_path) \<noteq> ''.json'' then (file_path, fs, False)
      else case map_option universal_newlines (fs (path_str file_path)) of
             None \<Rightarrow> (file_path, fs, True)
           | Some content \<Rightarrow>
               if \<not> re_search content then (file_path, fs, False)
               else (case tmp_name of
                       None \<Rightarrow> (file_path, fs, True)
                     | Some t \<Rightarrow>
                         (\<lparr> path_str = t, path_suffix = ''.json'' \<rparr>,
                          fs(t \<mapsto> write_text_mode linesep (re_sub content)), False)))"

section \<open>Main conversion flow\<close>

text \<open>
  The part of \<open>main\<close> after the arguments are parsed. \<open>parse\<close> stands for the parser of
  the library, which is outside the repository, on the name and the text of a file:
  \<open>None\<close> when it raises. The result is the exit code and the file system afterwards.
  The output file is written in text mode; writing it and printing are taken to succeed;
  an \<open>unlink\<close> that raises is ignored by the source and removes nothing.
\<close>

record arguments =
  arg_spdx_file :: path
  arg_output :: "path option"
  arg_compact :: bool
  arg_max_packages :: "int option"
  arg_exclude_external_refs :: bool

definition parse_file ::
  "(string \<Rightarrow> string \<Rightarrow> document option) \<Rightarrow> filesystem \<Rightarrow> string \<Rightarrow> document option" where
  "parse_file parse fs p = (case fs p of None \<Rightarrow> None | Some content \<Rightarrow> parse p content)"

definition main_flow ::
  "(string \<Rightarrow> string \<Rightarrow> document option) \<Rightarrow> string \<Rightarrow> string option \<Rightarrow> filesystem
     \<Rightarrow> arguments \<Rightarrow> nat \<times> filesystem" where
  "main_flow parse linesep tmp_name fs args =
     (if path_str (arg_spdx_file args) \<notin> dom fs then (1, fs)
      else
        (let (processed_file, fs1, warned) =
               preprocess_spdx_file linesep tmp_name fs (arg_spdx_file args)
         in case parse_file parse fs1 (path_str processed_file) of
              None \<Rightarrow> (1, fs1)
            | Some doc \<Rightarrow>
                (let fs2 = (if processed_file \<noteq> arg_spdx_file args
                            then fs1(path_str processed_file := None) else fs1);
                     mermaid = generate_mermaid_diagram doc (arg_compact args)
                                 (arg_max_packages args) (arg_exclude_external_refs args)
                 in case arg_output args of
                      Some out \<Rightarrow> (0, fs2(path_str out \<mapsto> write_text_mode linesep mermaid))
                    | None \<Rightarrow> (0, fs2))))"

section \<open>Example files\<close>

definition unpatched_text :: string where
  "unpatched_text = ''{'' @ [dq] @ ''created'' @ [dq] @ '': '' @ [dq] @ ''2025-11-27T15:17:19'' @ [dq] @ ''}''"

definition patched_text :: string where
  "patched_text = ''{'' @ [dq] @ ''created'' @ [dq] @ '': '' @ [dq] @ ''2025-11-27T15:17:19Z'' @ [dq] @ ''}''"



definition input_path :: path where
  "input_path = \<lparr> path_str = ''in.spdx.json'', path_suffix = ''.json'' \<rparr>"

definition temp_name :: string where
  "temp_name = ''/tmp/spdx_preprocessed_a1b2c3d4.json''"

definition example_arguments :: arguments where
  "example_arguments =
     \<lparr> arg_spdx_file = input_path, arg_output = None, arg_compact = False,
       arg_max_packages = None, arg_exclude_external_refs = False \<rparr>"

section \<open>Facts about the string primitives\<close>

lemma replace_str_char:
  "replace_str [a] [b] s = map (\<lambda>c. if c = a then b else c) s"
  by (induction s) auto

lemma replace_str_absent:
  "x \<in> set old \<Longrightarrow> x \<notin> set s \<Longrightarrow> replace_str old new s = s"
proof (induction s)
  case Nil
  then show ?case by auto
next
  case (Cons c cs)
  have "\<not> prefix old (c # cs)"
  proof
    assume "prefix old (c # cs)"
    then have "set old \<subseteq> set (c # cs)" by (rule set_mono_prefix)
    with Cons.prems show False by blast
  qed
  moreover have "old \<noteq> []" using Cons.prems by auto
  ultimately show ?case using Cons by simp
qed

lemma escape_quotes_map:
  "escape_quotes s = map (\<lambda>c. if c = dq then CHR 0x27 else c) s"
  by (simp add: escape_quotes_def replace_str_char)

lemma length_escape_quotes [simp]: "length (escape_quotes s) = length s"
  by (simp add: escape_quotes_map)

lemma sanitize_node_id_map:
  "sanitize_node_id s =
     map (\<lambda>c. if c = CHR ''.'' then CHR ''_'' else c)
       (map (\<lambda>c. if c = CHR ''-'' then CHR ''_'' else c) (replace_str ''SPDXRef-'' '''' s))"
  by (simp add: sanitize_node_id_def replace_str_char)

lemma sanitize_no_dash: "CHR ''-'' \<notin> set (sanitize_node_id s)"
  by (auto simp: sanitize_node_id_map)

lemma sanitize_no_dot: "CHR ''.'' \<notin> set (sanitize_node_id s)"
  by (auto simp: sanitize_node_id_map)

lemma sanitize_fixed:
  assumes "CHR ''-'' \<notin> set t" and "CHR ''.'' \<notin> set t"
  shows "sanitize_node_id t = t"
proof -
  have "replace_str ''SPDXRef-'' '''' t = t"
    using assms(1) by (intro replace_str_absent[where x = "CHR ''-''"]) auto
  moreover have "map (\<lambda>c. if c = CHR ''-'' then CHR ''_'' else c) t = t"
    using assms(1) by (induction t) auto
  moreover have "map (\<lambda>c. if c = CHR ''.'' then CHR ''_'' else c) t = t"
    using assms(2) by (induction t) auto
  ultimately show ?thesis by (simp add: sanitize_node_id_map)
qed

section \<open>Facts about the dictionaries\<close>

lemma dict_set_fresh:
  "k \<notin> fst ` set d \<Longrightarrow> dict_set k v d = d @ [(k, v)]"
  by (induction d) (auto simp: rev_image_eqI)

lemma dict_set_keys:
  "map fst (dict_set k v d) = (if k \<in> fst ` set d then map fst d else map fst d @ [k])"
  by (induction d) (auto simp: rev_image_eqI)

lemma dict_set_distinct:
  "distinct (map fst d) \<Longrightarrow> distinct (map fst (dict_set k v d))"
  by (simp add: dict_set_keys)

lemma fold_dict_set_distinct:
  "distinct (map fst d) \<Longrightarrow> distinct (map fst (fold (\<lambda>x. dict_set (key x) (val x)) xs d))"
  by (induction xs arbitrary: d) (simp_all add: dict_set_distinct)

lemma fold_dict_set_fresh:
  "distinct (map key xs) \<Longrightarrow> set (map key xs) \<inter> fst ` set d = {}
   \<Longrightarrow> fold (\<lambda>x. dict_set (key x) (val x)) xs d = d @ map (\<lambda>x. (key x, val x)) xs"
proof (induction xs arbitrary: d)
  case Nil
  then show ?case by simp
next
  case (Cons x xs)
  have fresh: "key x \<notin> fst ` set d" using Cons.prems(2) by auto
  have step: "dict_set (key x) (val x) d = d @ [(key x, val x)]"
    using fresh by (rule dict_set_fresh)
  have "set (map key xs) \<inter> fst ` set (d @ [(key x, val x)]) = {}"
    using Cons.prems by auto
  with Cons.IH[of "d @ [(key x, val x)]"] Cons.prems(1) step show ?case by simp
qed

lemma dict_update_fresh:
  assumes "distinct (map fst other)" and "fst ` set other \<inter> fst ` set d = {}"
  shows "dict_update d other = d @ other"
proof -
  have "set (map fst other) \<inter> fst ` set d = {}" using assms(2) by simp
  with assms(1)
  have "fold (\<lambda>x. dict_set (fst x) (snd x)) other d = d @ map (\<lambda>x. (fst x, snd x)) other"
    by (rule fold_dict_set_fresh[where key = fst and val = snd])
  then show ?thesis by (simp add: dict_update_def case_prod_unfold)
qed

lemma dict_of_items_distinct:
  "distinct (map fst items) \<Longrightarrow> dict_of_items items = items"
  by (simp add: dict_of_items_def dict_update_fresh)

lemma extract_distinct: "distinct (map fst (extract_elements_from_document doc))"
proof -
  let ?d0 = "dict_set ''SPDXRef-DOCUMENT'' (document_data doc) []"
  let ?d1 = "fold (\<lambda>p. dict_set (p_spdx_id p) (pkg_data p)) (packages doc) ?d0"
  let ?d2 = "fold (\<lambda>f. dict_set (f_spdx_id f) (file_data f)) (files doc) ?d1"
  have "distinct (map fst ?d0)" by simp
  then have "distinct (map fst ?d1)"
    by (rule fold_dict_set_distinct[where key = p_spdx_id and val = pkg_data])
  then have "distinct (map fst ?d2)"
    by (rule fold_dict_set_distinct[where key = f_spdx_id and val = file_data])
  then have "distinct (map fst (fold (\<lambda>s. dict_set (s_spdx_id s) (snippet_data s))
      (snippets doc) ?d2))"
    by (rule fold_dict_set_distinct[where key = s_spdx_id and val = snippet_data])
  then show ?thesis by (simp only: extract_elements_from_document_def)
qed

lemma slice_to_prefix: "prefix (slice_to n xs) xs"
  by (simp add: slice_to_def take_is_prefix)

lemma distinct_keys_prefix:
  "prefix ys xs \<Longrightarrow> distinct (map fst xs) \<Longrightarrow> distinct (map fst ys)"
  by (auto simp: prefix_def)

lemma filter_keys_disjoint:
  assumes "distinct (map fst els)"
  shows "fst ` set (filter P els) \<inter> fst ` set (filter (\<lambda>kv. \<not> P kv) els) = {}"
proof (rule equals0I)
  fix k
  assume "k \<in> fst ` set (filter P els) \<inter> fst ` set (filter (\<lambda>kv. \<not> P kv) els)"
  then obtain v w where a: "(k, v) \<in> set els" "P (k, v)"
    and b: "(k, w) \<in> set els" "\<not> P (k, w)"
    by auto
  from assms a(1) b(1) have "v = w" by (rule eq_key_imp_eq_value)
  with a(2) b(2) show False by simp
qed

lemma limit_packages_cut:
  assumes d: "distinct (map fst els)" and big: "int (length (filter is_package els)) > n"
  shows "limit_packages (Some n) els =
           filter (\<lambda>kv. \<not> is_package kv) els @ slice_to n (filter is_package els)"
proof -
  let ?pk = "filter is_package els"
  let ?cut = "slice_to n ?pk"
  have dpk: "distinct (map fst ?pk)" using d by (simp add: distinct_map_filter)
  have pre: "prefix ?cut ?pk" by (rule slice_to_prefix)
  have dcut: "distinct (map fst ?cut)" using pre dpk by (rule distinct_keys_prefix)
  have sub: "set ?cut \<subseteq> set ?pk" using pre by (rule set_mono_prefix)
  have "fst ` set ?pk \<inter> fst ` set (filter (\<lambda>kv. \<not> is_package kv) els) = {}"
    using d by (rule filter_keys_disjoint)
  with sub have disj: "fst ` set ?cut \<inter> fst ` set (filter (\<lambda>kv. \<not> is_package kv) els) = {}"
    by blast
  have "dict_update (filter (\<lambda>kv. \<not> is_package kv) els) (dict_of_items ?cut)
          = filter (\<lambda>kv. \<not> is_package kv) els @ ?cut"
    using dcut disj by (simp add: dict_of_items_distinct dict_update_fresh)
  then show ?thesis using big by (simp add: limit_packages_def Let_def)
qed

lemma limit_packages_keep:
  "\<not> int (length (filter is_package els)) > n \<Longrightarrow> limit_packages (Some n) els = els"
  by (simp add: limit_packages_def Let_def)

section \<open>The sanitizer\<close>

text \<open>
  C2. The sanitizer is a function of its argument, it is idempotent, its result holds no
  occurrence of \<open>SPDXRef-\<close>, no \<open>-\<close> and no \<open>.\<close>, and it maps \<open>SPDXRef-my-package\<close> to
  \<open>my_package\<close> and \<open>SPDXRef-foo.bar\<close> to \<open>foo_bar\<close>.
\<close>

theorem sanitize_node_id_idempotent:
  "sanitize_node_id (sanitize_node_id s) = sanitize_node_id s
   \<and> \<not> sublist ''SPDXRef-'' (sanitize_node_id s)
   \<and> CHR ''-'' \<notin> set (sanitize_node_id s)
   \<and> CHR ''.'' \<notin> set (sanitize_node_id s)
   \<and> sanitize_node_id ''SPDXRef-my-package'' = ''my_package''
   \<and> sanitize_node_id ''SPDXRef-foo.bar'' = ''foo_bar''"
proof -
  have idem: "sanitize_node_id (sanitize_node_id s) = sanitize_node_id s"
    by (rule sanitize_fixed) (rule sanitize_no_dash, rule sanitize_no_dot)
  have nopre: "\<not> sublist ''SPDXRef-'' (sanitize_node_id s)"
  proof
    assume "sublist ''SPDXRef-'' (sanitize_node_id s)"
    then have "set ''SPDXRef-'' \<subseteq> set (sanitize_node_id s)" by (rule set_mono_sublist)
    then show False using sanitize_no_dash[of s] by auto
  qed
  have e1: "sanitize_node_id ''SPDXRef-my-package'' = ''my_package''"
    by (simp add: sanitize_node_id_def)
  have e2: "sanitize_node_id ''SPDXRef-foo.bar'' = ''foo_bar''"
    by (simp add: sanitize_node_id_def)
  show ?thesis using idem nopre sanitize_no_dash sanitize_no_dot e1 e2 by blast
qed

section \<open>Capping the packages\<close>

text \<open>
  C5. For the elements extracted from any document and any maximum \<open>N \<ge> 0\<close>, the capped
  dictionary holds every element that is not a package, unchanged and in the same order,
  and holds the first \<open>min N total\<close> packages in their original order, where \<open>total\<close> is
  the number of packages among the extracted elements.
\<close>

theorem limit_packages_retains:
  fixes N :: nat
  defines "els \<equiv> \<lambda>doc. extract_elements_from_document doc"
  shows "filter (\<lambda>kv. \<not> is_package kv) (limit_packages (Some (int N)) (els doc))
           = filter (\<lambda>kv. \<not> is_package kv) (els doc)
         \<and> filter is_package (limit_packages (Some (int N)) (els doc))
           = take (min N (length (filter is_package (els doc)))) (filter is_package (els doc))
         \<and> length (filter is_package (limit_packages (Some (int N)) (els doc)))
           = min N (length (filter is_package (els doc)))"
proof (cases "int (length (filter is_package (els doc))) > int N")
  case True
  have d: "distinct (map fst (els doc))" by (simp add: els_def extract_distinct)
  have cut: "limit_packages (Some (int N)) (els doc) =
      filter (\<lambda>kv. \<not> is_package kv) (els doc) @ take N (filter is_package (els doc))"
    using limit_packages_cut[OF d True] by (simp add: slice_to_def)
  have p: "filter is_package (take N (filter is_package (els doc)))
             = take N (filter is_package (els doc))"
    by (rule filter_True) (auto dest: in_set_takeD)
  have q: "filter (\<lambda>kv. \<not> is_package kv) (take N (filter is_package (els doc))) = []"
    by (rule filter_False) (auto dest: in_set_takeD)
  show ?thesis using True by (simp add: cut p q min_def)
next
  case False
  then have "limit_packages (Some (int N)) (els doc) = els doc"
    by (rule limit_packages_keep)
  with False show ?thesis by (simp add: min_def)
qed

section \<open>Order of the node statements\<close>

lemma etype_data [simp]:
  "etype (document_data doc) = ''Document''"
  "etype (pkg_data p) = ''Package''"
  "etype (file_data f) = ''File''"
  "etype (snippet_data s) = ''Snippet''"
  by (simp_all add: document_data_def pkg_data_def file_data_def snippet_data_def only_type_def)

lemma extract_in_order:
  assumes "distinct (element_ids doc)"
  shows "extract_elements_from_document doc =
           document_entry doc # package_entries doc @ file_entries doc @ snippet_entries doc"
proof -
  let ?P = "map p_spdx_id (packages doc)"
  let ?F = "map f_spdx_id (files doc)"
  let ?S = "map s_spdx_id (snippets doc)"
  let ?d0 = "[document_entry doc]"
  let ?d1 = "?d0 @ package_entries doc"
  let ?d2 = "?d1 @ file_entries doc"
  from assms have d: "distinct ?P" "distinct ?F" "distinct ?S"
    and k: "''SPDXRef-DOCUMENT'' \<notin> set ?P" "''SPDXRef-DOCUMENT'' \<notin> set ?F"
      "''SPDXRef-DOCUMENT'' \<notin> set ?S"
    and x: "set ?P \<inter> set ?F = {}" "set ?P \<inter> set ?S = {}" "set ?F \<inter> set ?S = {}"
    unfolding element_ids_def by auto
  have k0: "fst ` set ?d0 = {''SPDXRef-DOCUMENT''}" by (simp add: document_entry_def)
  have k1: "fst ` set ?d1 = {''SPDXRef-DOCUMENT''} \<union> set ?P"
    by (simp add: document_entry_def package_entries_def image_Un image_image)
  have k2: "fst ` set ?d2 = {''SPDXRef-DOCUMENT''} \<union> set ?P \<union> set ?F"
    by (simp add: document_entry_def package_entries_def file_entries_def image_Un image_image
          Un_assoc)
  have s0: "dict_set ''SPDXRef-DOCUMENT'' (document_data doc) [] = ?d0"
    by (simp add: document_entry_def)
  have "set ?P \<inter> fst ` set ?d0 = {}" using k(1) unfolding k0 by blast
  with d(1) have s1: "fold (\<lambda>p. dict_set (p_spdx_id p) (pkg_data p)) (packages doc) ?d0 = ?d1"
    unfolding package_entries_def
    by (rule fold_dict_set_fresh[where key = p_spdx_id and val = pkg_data])
  have "set ?F \<inter> fst ` set ?d1 = {}" using k(2) x(1) unfolding k1 by blast
  with d(2) have s2: "fold (\<lambda>f. dict_set (f_spdx_id f) (file_data f)) (files doc) ?d1 = ?d2"
    unfolding file_entries_def
    by (rule fold_dict_set_fresh[where key = f_spdx_id and val = file_data])
  have "set ?S \<inter> fst ` set ?d2 = {}" using k(3) x(2) x(3) unfolding k2 by blast
  with d(3) have s3: "fold (\<lambda>s. dict_set (s_spdx_id s) (snippet_data s)) (snippets doc) ?d2
              = ?d2 @ snippet_entries doc"
    unfolding snippet_entries_def
    by (rule fold_dict_set_fresh[where key = s_spdx_id and val = snippet_data])
  show ?thesis
    by (simp only: extract_elements_from_document_def s0 s1 s2 s3) simp
qed

lemma filter_entries:
  "filter is_package (document_entry doc # package_entries doc @ file_entries doc
      @ snippet_entries doc) = package_entries doc"
  "filter (\<lambda>kv. \<not> is_package kv) (document_entry doc # package_entries doc @ file_entries doc
      @ snippet_entries doc) = document_entry doc # file_entries doc @ snippet_entries doc"
  by (simp_all add: is_package_def document_entry_def package_entries_def file_entries_def
        snippet_entries_def filter_map comp_def)

lemma limited_in_order:
  assumes "distinct (element_ids doc)"
  shows "limit_packages m (extract_elements_from_document doc) =
     (case m of
        None \<Rightarrow> document_entry doc # package_entries doc @ file_entries doc
                  @ snippet_entries doc
      | Some n \<Rightarrow>
          if int (length (packages doc)) > n
          then document_entry doc # file_entries doc @ snippet_entries doc
                 @ slice_to n (package_entries doc)
          else document_entry doc # package_entries doc @ file_entries doc
                 @ snippet_entries doc)"
proof (cases m)
  case None
  then show ?thesis using extract_in_order[OF assms] by (simp add: limit_packages_def)
next
  case (Some n)
  let ?E = "extract_elements_from_document doc"
  have E: "?E = document_entry doc # package_entries doc @ file_entries doc
                  @ snippet_entries doc"
    using assms by (rule extract_in_order)
  have pk: "filter is_package ?E = package_entries doc"
    and npk: "filter (\<lambda>kv. \<not> is_package kv) ?E
                = document_entry doc # file_entries doc @ snippet_entries doc"
    unfolding E by (rule filter_entries)+
  have len: "length (package_entries doc) = length (packages doc)"
    by (simp add: package_entries_def)
  show ?thesis
  proof (cases "int (length (packages doc)) > n")
    case True
    then have "int (length (filter is_package ?E)) > n" by (simp add: pk len)
    with extract_distinct have "limit_packages (Some n) ?E =
        filter (\<lambda>kv. \<not> is_package kv) ?E @ slice_to n (filter is_package ?E)"
      by (rule limit_packages_cut)
    then show ?thesis using True Some by (simp add: pk npk)
  next
    case False
    then have "\<not> int (length (filter is_package ?E)) > n" by (simp add: pk len)
    then have "limit_packages (Some n) ?E = ?E" by (rule limit_packages_keep)
    then show ?thesis using False Some E by simp
  qed
qed

text \<open>
  C6 as stated fails. With two packages, one file and a maximum of one package, the node statements come in
  the order document, file, package: the file node stands before the node of the package
  that is kept, which is not the extraction order of the elements that are kept.
\<close>

theorem node_order_under_cap_counterexample:
  "map fst (limit_packages (Some 1) (extract_elements_from_document two_packages_one_file))
     = [''SPDXRef-DOCUMENT'', ''SPDXRef-F'', ''SPDXRef-A'']
   \<and> node_lines two_packages_one_file True (Some 1) False =
      [node_line ''DOCUMENT'' (join [nl] [''[Document]'', ''Name: doc'', ''Version: SPDX-2.3'']),
       style_line ''DOCUMENT'' ''fill:#e1f5ff,stroke:#01579b,stroke-width:3px'',
       node_line ''F'' (join [nl] [''[File]'', ''Name: f'']),
       style_line ''F'' ''fill:#e8f5e9,stroke:#1b5e20,stroke-width:2px'',
       node_line ''A'' (join [nl] [''[Package]'', ''Name: a'']),
       style_line ''A'' ''fill:#f3e5f5,stroke:#4a148c,stroke-width:2px'']
   \<and> node_lines two_packages_one_file True (Some 1) False \<noteq>
      concat (map (node_statements True False)
        (document_entry two_packages_one_file # take 1 (package_entries two_packages_one_file)
           @ file_entries two_packages_one_file @ snippet_entries two_packages_one_file))"
proof -
  have d: "distinct (element_ids two_packages_one_file)"
    by (simp add: element_ids_def two_packages_one_file_def plain_package_def plain_file_def)
  have l: "limit_packages (Some 1) (extract_elements_from_document two_packages_one_file) =
      [document_entry two_packages_one_file,
       (''SPDXRef-F'', file_data (plain_file ''SPDXRef-F'' ''f'')),
       (''SPDXRef-A'', pkg_data (plain_package ''SPDXRef-A'' ''a''))]"
    unfolding limited_in_order[OF d]
    by (simp add: two_packages_one_file_def package_entries_def file_entries_def
          snippet_entries_def slice_to_def plain_package_def plain_file_def)
  have nd: "node_statements True False (document_entry two_packages_one_file) =
      [node_line ''DOCUMENT'' (join [nl] [''[Document]'', ''Name: doc'', ''Version: SPDX-2.3'']),
       style_line ''DOCUMENT'' ''fill:#e1f5ff,stroke:#01579b,stroke-width:3px'']"
    by (simp add: Let_def node_statements_def document_entry_def two_packages_one_file_def
          plain_creation_info_def document_data_def only_type_def sanitize_node_id_def
          format_node_label_def label_lines_def header_lines_def cut_line_def plain_line_def
          escape_quotes_def)
  have nf: "node_statements True False (''SPDXRef-F'', file_data (plain_file ''SPDXRef-F'' ''f'')) =
      [node_line ''F'' (join [nl] [''[File]'', ''Name: f'']),
       style_line ''F'' ''fill:#e8f5e9,stroke:#1b5e20,stroke-width:2px'']"
    by (simp add: Let_def node_statements_def plain_file_def file_data_def only_type_def
          sanitize_node_id_def format_node_label_def label_lines_def header_lines_def
          cut_line_def plain_line_def escape_quotes_def)
  have np: "node_statements True False (''SPDXRef-A'', pkg_data (plain_package ''SPDXRef-A'' ''a'')) =
      [node_line ''A'' (join [nl] [''[Package]'', ''Name: a'']),
       style_line ''A'' ''fill:#f3e5f5,stroke:#4a148c,stroke-width:2px'']"
    by (simp add: Let_def node_statements_def plain_package_def pkg_data_def only_type_def
          sanitize_node_id_def format_node_label_def label_lines_def header_lines_def
          cut_line_def plain_line_def escape_quotes_def package_lines_def
          external_ref_lines_def external_ref_dicts_def)
  have ids: "map fst (limit_packages (Some 1)
        (extract_elements_from_document two_packages_one_file))
      = [''SPDXRef-DOCUMENT'', ''SPDXRef-F'', ''SPDXRef-A'']"
    unfolding l by (simp add: document_entry_def)
  have lines: "node_lines two_packages_one_file True (Some 1) False =
      [node_line ''DOCUMENT'' (join [nl] [''[Document]'', ''Name: doc'', ''Version: SPDX-2.3'']),
       style_line ''DOCUMENT'' ''fill:#e1f5ff,stroke:#01579b,stroke-width:3px'',
       node_line ''F'' (join [nl] [''[File]'', ''Name: f'']),
       style_line ''F'' ''fill:#e8f5e9,stroke:#1b5e20,stroke-width:2px'',
       node_line ''A'' (join [nl] [''[Package]'', ''Name: a'']),
       style_line ''A'' ''fill:#f3e5f5,stroke:#4a148c,stroke-width:2px'']"
    unfolding node_lines_def l by (simp only: list.map concat.simps nd nf np append.simps)
  have ents: "document_entry two_packages_one_file
        # take 1 (package_entries two_packages_one_file)
        @ file_entries two_packages_one_file @ snippet_entries two_packages_one_file
      = [document_entry two_packages_one_file,
         (''SPDXRef-A'', pkg_data (plain_package ''SPDXRef-A'' ''a'')),
         (''SPDXRef-F'', file_data (plain_file ''SPDXRef-F'' ''f''))]"
    by (simp add: two_packages_one_file_def package_entries_def file_entries_def
          snippet_entries_def plain_package_def plain_file_def)
  have claimed: "concat (map (node_statements True False)
        (document_entry two_packages_one_file # take 1 (package_entries two_packages_one_file)
           @ file_entries two_packages_one_file @ snippet_entries two_packages_one_file)) =
      [node_line ''DOCUMENT'' (join [nl] [''[Document]'', ''Name: doc'', ''Version: SPDX-2.3'']),
       style_line ''DOCUMENT'' ''fill:#e1f5ff,stroke:#01579b,stroke-width:3px'',
       node_line ''A'' (join [nl] [''[Package]'', ''Name: a'']),
       style_line ''A'' ''fill:#f3e5f5,stroke:#4a148c,stroke-width:2px'',
       node_line ''F'' (join [nl] [''[File]'', ''Name: f'']),
       style_line ''F'' ''fill:#e8f5e9,stroke:#1b5e20,stroke-width:2px'']"
    by (simp only: ents list.map concat.simps nd nf np append.simps)
  have differ: "node_lines two_packages_one_file True (Some 1) False \<noteq>
      concat (map (node_statements True False)
        (document_entry two_packages_one_file # take 1 (package_entries two_packages_one_file)
           @ file_entries two_packages_one_file @ snippet_entries two_packages_one_file))"
    unfolding lines claimed by (simp add: node_line_def)
  show ?thesis using ids lines differ by blast
qed

text \<open>
  C6 (amended). For a document whose element identifiers are pairwise distinct and differ
  from \<open>SPDXRef-DOCUMENT\<close>: when no maximum is given, or the number of packages does not
  exceed it, the node statements are emitted in extraction order (the document, then the
  packages, the files and the snippets, each group in source order); when the maximum
  cuts the packages, the statements of the document, the files and the snippets come
  first, in extraction order, and the statements of the packages that are kept come last,
  in source order.
\<close>

theorem node_order:
  assumes "distinct (element_ids doc)"
  shows "node_lines doc compact max_packages x =
     concat (map (node_statements compact x)
       (case max_packages of
          None \<Rightarrow> document_entry doc # package_entries doc @ file_entries doc
                    @ snippet_entries doc
        | Some n \<Rightarrow>
            if int (length (packages doc)) > n
            then document_entry doc # file_entries doc @ snippet_entries doc
                   @ slice_to n (package_entries doc)
            else document_entry doc # package_entries doc @ file_entries doc
                   @ snippet_entries doc))"
  unfolding node_lines_def limited_in_order[OF assms] by (rule refl)

text \<open>
  C6 (amended) at the example of two packages and a file, with a maximum that cuts and
  one that does not.
\<close>

theorem node_order_witness:
  "distinct (element_ids two_packages_one_file)
   \<and> node_lines two_packages_one_file True (Some 1) False =
     concat (map (node_statements True False)
       (document_entry two_packages_one_file # file_entries two_packages_one_file
          @ snippet_entries two_packages_one_file
          @ take 1 (package_entries two_packages_one_file)))
   \<and> node_lines two_packages_one_file True (Some 2) False =
     concat (map (node_statements True False)
       (document_entry two_packages_one_file # package_entries two_packages_one_file
          @ file_entries two_packages_one_file @ snippet_entries two_packages_one_file))"
proof -
  have d: "distinct (element_ids two_packages_one_file)"
    by (simp add: element_ids_def two_packages_one_file_def plain_package_def plain_file_def)
  have n: "length (packages two_packages_one_file) = 2"
    by (simp add: two_packages_one_file_def)
  show ?thesis
    using d node_order[OF d, of True "Some 1" False] node_order[OF d, of True "Some 2" False]
    by (simp add: n slice_to_def)
qed

section \<open>Relationships and edges\<close>

lemma join_Cons: "join sep (x # xs) = x @ concat (map (\<lambda>y. sep @ y) xs)"
  by (induction xs arbitrary: x) simp_all

lemma edge_statement_fields:
  "edge_statement r =
     ''    '' @ sanitize_node_id (r_spdx_element_id r) @ '' -->|'' @ [dq]
     @ r_relationship_type r
     @ (case r_comment r of
          Some c \<Rightarrow> if c = [] then [] else ''<br/>'' @ escape_quotes c
        | None \<Rightarrow> [])
     @ [dq] @ ''| '' @ sanitize_node_id (r_related_spdx_element_id r)"
  by (cases "r_comment r") (simp_all add: edge_statement_def edge_label_def)

text \<open>
  C1. The diagram that \<open>generate_mermaid_diagram\<close> returns is the header, the node lines,
  then one line for each relationship of the document, in source order, and the legend.
  The line of a relationship runs from the sanitized source identifier to the sanitized
  target identifier and is labelled with the name of the relationship type, followed by
  \<open><br/>\<close> and the quote-escaped comment when the relationship has a non-empty one. The
  node lines do not depend on the relationships and no test on the endpoints stands
  between a relationship and its line: in the example the edge starts at \<open>Doc1\<close>, which
  is no node of the diagram.
\<close>

theorem one_edge_per_relationship:
  "generate_mermaid_diagram doc compact max_packages x =
     ''graph LR''
     @ concat (map (\<lambda>l. nl # l) (node_lines doc compact max_packages x))
     @ concat (map (\<lambda>r. nl # ''    '' @ sanitize_node_id (r_spdx_element_id r) @ '' -->|''
                 @ [dq] @ r_relationship_type r
                 @ (case r_comment r of
                      Some c \<Rightarrow> if c = [] then [] else ''<br/>'' @ escape_quotes c
                    | None \<Rightarrow> [])
                 @ [dq] @ ''| '' @ sanitize_node_id (r_related_spdx_element_id r))
         (relationships doc))
     @ concat (map (\<lambda>l. nl # l) legend_lines)
   \<and> node_lines (doc\<lparr>relationships := rs\<rparr>) compact max_packages x =
       node_lines doc compact max_packages x
   \<and> generate_mermaid_diagram (described_by ''SPDXRef-Doc1'') True None False =
       ''graph LR'' @ [nl]
       @ ''    DOCUMENT['' @ [dq] @ ''[Document]'' @ [nl] @ ''Name: doc'' @ [nl]
       @ ''Version: SPDX-2.3'' @ [dq] @ '']'' @ [nl]
       @ ''    style DOCUMENT fill:#e1f5ff,stroke:#01579b,stroke-width:3px'' @ [nl]
       @ ''    A['' @ [dq] @ ''[Package]'' @ [nl] @ ''Name: a'' @ [dq] @ '']'' @ [nl]
       @ ''    style A fill:#f3e5f5,stroke:#4a148c,stroke-width:2px'' @ [nl]
       @ ''    Doc1 -->|'' @ [dq] @ ''DESCRIBES'' @ [dq] @ ''| A''
       @ concat (map (\<lambda>l. nl # l) legend_lines)"
proof -
  have a: "generate_mermaid_diagram doc compact max_packages x =
     ''graph LR''
     @ concat (map (\<lambda>l. nl # l) (node_lines doc compact max_packages x))
     @ concat (map (\<lambda>r. nl # edge_statement r) (relationships doc))
     @ concat (map (\<lambda>l. nl # l) legend_lines)" for doc compact max_packages x
    by (simp add: generate_mermaid_diagram_def diagram_lines_def join_Cons comp_def)
  have b: "node_lines (doc\<lparr>relationships := rs\<rparr>) compact max_packages x =
       node_lines doc compact max_packages x"
    by (simp add: node_lines_def extract_elements_from_document_def document_data_def)
  let ?D = "described_by ''SPDXRef-Doc1''"
  have d: "distinct (element_ids ?D)"
    by (simp add: element_ids_def described_by_def plain_package_def)
  have l: "limit_packages None (extract_elements_from_document ?D) =
      [document_entry ?D, (''SPDXRef-A'', pkg_data (plain_package ''SPDXRef-A'' ''a''))]"
    unfolding limited_in_order[OF d]
    by (simp add: described_by_def package_entries_def file_entries_def snippet_entries_def
          plain_package_def)
  have nd: "node_statements True False (document_entry ?D) =
      [''    DOCUMENT['' @ [dq] @ ''[Document]'' @ [nl] @ ''Name: doc'' @ [nl]
         @ ''Version: SPDX-2.3'' @ [dq] @ '']'',
       ''    style DOCUMENT fill:#e1f5ff,stroke:#01579b,stroke-width:3px'']"
    by (simp add: Let_def node_statements_def document_entry_def described_by_def
          plain_creation_info_def document_data_def only_type_def sanitize_node_id_def
          format_node_label_def label_lines_def header_lines_def cut_line_def plain_line_def
          escape_quotes_def node_line_def style_line_def)
  have np: "node_statements True False (''SPDXRef-A'', pkg_data (plain_package ''SPDXRef-A'' ''a'')) =
      [''    A['' @ [dq] @ ''[Package]'' @ [nl] @ ''Name: a'' @ [dq] @ '']'',
       ''    style A fill:#f3e5f5,stroke:#4a148c,stroke-width:2px'']"
    by (simp add: Let_def node_statements_def plain_package_def pkg_data_def only_type_def
          sanitize_node_id_def format_node_label_def label_lines_def header_lines_def
          cut_line_def plain_line_def escape_quotes_def package_lines_def
          external_ref_lines_def external_ref_dicts_def node_line_def style_line_def)
  have nodes: "node_lines ?D True None False =
      [''    DOCUMENT['' @ [dq] @ ''[Document]'' @ [nl] @ ''Name: doc'' @ [nl]
         @ ''Version: SPDX-2.3'' @ [dq] @ '']'',
       ''    style DOCUMENT fill:#e1f5ff,stroke:#01579b,stroke-width:3px'',
       ''    A['' @ [dq] @ ''[Package]'' @ [nl] @ ''Name: a'' @ [dq] @ '']'',
       ''    style A fill:#f3e5f5,stroke:#4a148c,stroke-width:2px'']"
    unfolding node_lines_def l by (simp only: list.map concat.simps nd np append.simps)
  have edges: "map (\<lambda>r. nl # edge_statement r) (relationships ?D) =
      [nl # ''    Doc1 -->|'' @ [dq] @ ''DESCRIBES'' @ [dq] @ ''| A'']"
    by (simp add: described_by_def edge_statement_def edge_label_def sanitize_node_id_def)
  have c: "generate_mermaid_diagram ?D True None False =
       ''graph LR'' @ [nl]
       @ ''    DOCUMENT['' @ [dq] @ ''[Document]'' @ [nl] @ ''Name: doc'' @ [nl]
       @ ''Version: SPDX-2.3'' @ [dq] @ '']'' @ [nl]
       @ ''    style DOCUMENT fill:#e1f5ff,stroke:#01579b,stroke-width:3px'' @ [nl]
       @ ''    A['' @ [dq] @ ''[Package]'' @ [nl] @ ''Name: a'' @ [dq] @ '']'' @ [nl]
       @ ''    style A fill:#f3e5f5,stroke:#4a148c,stroke-width:2px'' @ [nl]
       @ ''    Doc1 -->|'' @ [dq] @ ''DESCRIBES'' @ [dq] @ ''| A''
       @ concat (map (\<lambda>l. nl # l) legend_lines)"
    unfolding a nodes edges by simp
  have a': "generate_mermaid_diagram doc compact max_packages x =
     ''graph LR''
     @ concat (map (\<lambda>l. nl # l) (node_lines doc compact max_packages x))
     @ concat (map (\<lambda>r. nl # ''    '' @ sanitize_node_id (r_spdx_element_id r) @ '' -->|''
                 @ [dq] @ r_relationship_type r
                 @ (case r_comment r of
                      Some c \<Rightarrow> if c = [] then [] else ''<br/>'' @ escape_quotes c
                    | None \<Rightarrow> [])
                 @ [dq] @ ''| '' @ sanitize_node_id (r_related_spdx_element_id r))
         (relationships doc))
     @ concat (map (\<lambda>l. nl # l) legend_lines)"
    unfolding a by (simp add: edge_statement_fields)
  show ?thesis using a' b c by blast
qed

section \<open>The identifier of the document node\<close>

lemma extract_ignores_document_id:
  "extract_elements_from_document (doc\<lparr>creation_info := (creation_info doc)\<lparr>ci_spdx_id := i\<rparr>\<rparr>)
     = extract_elements_from_document doc"
  by (simp add: extract_elements_from_document_def document_data_def)

lemma dict_set_entries:
  "(k, v) \<in> set (dict_set k0 v0 d) \<Longrightarrow> (k, v) \<in> set d \<or> (k, v) = (k0, v0)"
  by (induction d) (auto split: if_splits)

lemma fold_dict_set_entries:
  "(k, v) \<in> set (fold (\<lambda>x. dict_set (key x) (val x)) xs d)
   \<Longrightarrow> (k, v) \<in> set d \<or> (\<exists>x \<in> set xs. (k, v) = (key x, val x))"
proof (induction xs arbitrary: d)
  case Nil
  then show ?case by simp
next
  case (Cons x xs)
  from Cons.prems have "(k, v) \<in> set (fold (\<lambda>x. dict_set (key x) (val x)) xs
      (dict_set (key x) (val x) d))" by simp
  then have "(k, v) \<in> set (dict_set (key x) (val x) d)
      \<or> (\<exists>y \<in> set xs. (k, v) = (key y, val y))" by (rule Cons.IH)
  then show ?case using dict_set_entries[of k v "key x" "val x" d] by auto
qed

lemma extract_entries:
  assumes "(k, v) \<in> set (extract_elements_from_document doc)"
  shows "(k, v) = document_entry doc \<or> etype v \<noteq> ''Document''"
proof -
  let ?d0 = "dict_set ''SPDXRef-DOCUMENT'' (document_data doc) []"
  let ?d1 = "fold (\<lambda>p. dict_set (p_spdx_id p) (pkg_data p)) (packages doc) ?d0"
  let ?d2 = "fold (\<lambda>f. dict_set (f_spdx_id f) (file_data f)) (files doc) ?d1"
  from assms have "(k, v) \<in> set (fold (\<lambda>s. dict_set (s_spdx_id s) (snippet_data s))
      (snippets doc) ?d2)" by (simp only: extract_elements_from_document_def)
  then have "(k, v) \<in> set ?d2 \<or> (\<exists>s \<in> set (snippets doc). (k, v) = (s_spdx_id s, snippet_data s))"
    by (rule fold_dict_set_entries[where key = s_spdx_id and val = snippet_data])
  moreover have "(k, v) \<in> set ?d1 \<or> (\<exists>f \<in> set (files doc). (k, v) = (f_spdx_id f, file_data f))"
    if "(k, v) \<in> set ?d2"
    using that by (rule fold_dict_set_entries[where key = f_spdx_id and val = file_data])
  moreover have "(k, v) \<in> set ?d0 \<or> (\<exists>p \<in> set (packages doc). (k, v) = (p_spdx_id p, pkg_data p))"
    if "(k, v) \<in> set ?d1"
    using that by (rule fold_dict_set_entries[where key = p_spdx_id and val = pkg_data])
  moreover have "(k, v) = document_entry doc" if "(k, v) \<in> set ?d0"
    using that by (simp add: document_entry_def)
  ultimately show ?thesis by auto
qed

lemma dict_set_has_key: "k \<in> fst ` set d \<Longrightarrow> k \<in> fst ` set (dict_set k0 v0 d)"
  using dict_set_keys[of k0 v0 d] by (metis in_set_conv_decomp list.set_map set_append Un_iff)

lemma extract_has_document_key:
  "''SPDXRef-DOCUMENT'' \<in> fst ` set (extract_elements_from_document doc)"
proof -
  have keep: "k \<in> fst ` set d \<Longrightarrow> k \<in> fst ` set (fold (\<lambda>x. dict_set (key x) (val x)) xs d)"
    for k :: string and d :: elements and key val and xs :: "'x list"
    by (induction xs arbitrary: d) (simp_all add: dict_set_has_key)
  have "''SPDXRef-DOCUMENT'' \<in> fst ` set (dict_set ''SPDXRef-DOCUMENT'' (document_data doc) [])"
    by simp
  then show ?thesis
    unfolding extract_elements_from_document_def by (intro keep)
qed

lemma limit_packages_subset:
  assumes "distinct (map fst els)"
  shows "set (limit_packages m els) \<subseteq> set els"
proof (cases m)
  case None
  then show ?thesis by (simp add: limit_packages_def)
next
  case (Some n)
  show ?thesis
  proof (cases "int (length (filter is_package els)) > n")
    case True
    have "set (slice_to n (filter is_package els)) \<subseteq> set (filter is_package els)"
      using slice_to_prefix by (rule set_mono_prefix)
    then show ?thesis unfolding Some limit_packages_cut[OF assms True] by auto
  next
    case False
    then show ?thesis unfolding Some by (simp add: limit_packages_keep)
  qed
qed

lemma map_fixes:
  assumes "\<And>c. h c \<noteq> c \<Longrightarrow> h c = u" and "u \<notin> set (map h t)"
  shows "map h t = t"
  using assms(2)
proof (induction t)
  case Nil
  then show ?case by simp
next
  case (Cons c t)
  then have "h c \<noteq> u" by auto
  with assms(1)[of c] have "h c = c" by blast
  with Cons show ?case by simp
qed

lemma sanitize_to_document:
  assumes "sanitize_node_id s = ''DOCUMENT''"
  shows "replace_str ''SPDXRef-'' '''' s = ''DOCUMENT''"
proof -
  let ?t = "replace_str ''SPDXRef-'' '''' s"
  let ?f = "\<lambda>c. if c = CHR ''-'' then CHR ''_'' else c"
  let ?g = "\<lambda>c. if c = CHR ''.'' then CHR ''_'' else c"
  from assms have m: "map ?g (map ?f ?t) = ''DOCUMENT''" by (simp add: sanitize_node_id_map)
  have "CHR ''_'' \<notin> set (map ?g (map ?f ?t))" unfolding m by simp
  then have "map ?g (map ?f ?t) = map ?f ?t" by (intro map_fixes[where u = "CHR ''_''"]) auto
  with m have m': "map ?f ?t = ''DOCUMENT''" by simp
  have "CHR ''_'' \<notin> set (map ?f ?t)" unfolding m' by simp
  then have "map ?f ?t = ?t" by (intro map_fixes[where u = "CHR ''_''"]) auto
  with m' show ?thesis by simp
qed

text \<open>
  C10 as stated fails. A document whose own identifier is \<open>DOCUMENT\<close>, which is not
  \<open>SPDXRef-DOCUMENT\<close>: the
  edge of the relationship that names it starts at \<open>DOCUMENT\<close>, the identifier of the
  emitted document node.
\<close>

theorem document_edge_counterexample:
  "ci_spdx_id (creation_info (described_by ''DOCUMENT'')) \<noteq> ''SPDXRef-DOCUMENT''
   \<and> map r_spdx_element_id (relationships (described_by ''DOCUMENT''))
       = [ci_spdx_id (creation_info (described_by ''DOCUMENT''))]
   \<and> diagram_lines (described_by ''DOCUMENT'') True None False =
      [''graph LR'',
       node_line ''DOCUMENT'' (join [nl] [''[Document]'', ''Name: doc'', ''Version: SPDX-2.3'']),
       style_line ''DOCUMENT'' ''fill:#e1f5ff,stroke:#01579b,stroke-width:3px'',
       node_line ''A'' (join [nl] [''[Package]'', ''Name: a'']),
       style_line ''A'' ''fill:#f3e5f5,stroke:#4a148c,stroke-width:2px'',
       ''    DOCUMENT -->|'' @ [dq] @ ''DESCRIBES'' @ [dq] @ ''| A'']
      @ legend_lines"
proof -
  let ?D = "described_by ''DOCUMENT''"
  have d: "distinct (element_ids ?D)"
    by (simp add: element_ids_def described_by_def plain_package_def)
  have l: "limit_packages None (extract_elements_from_document ?D) =
      [document_entry ?D, (''SPDXRef-A'', pkg_data (plain_package ''SPDXRef-A'' ''a''))]"
    unfolding limited_in_order[OF d]
    by (simp add: described_by_def package_entries_def file_entries_def snippet_entries_def
          plain_package_def)
  have nd: "node_statements True False (document_entry ?D) =
      [node_line ''DOCUMENT'' (join [nl] [''[Document]'', ''Name: doc'', ''Version: SPDX-2.3'']),
       style_line ''DOCUMENT'' ''fill:#e1f5ff,stroke:#01579b,stroke-width:3px'']"
    by (simp add: Let_def node_statements_def document_entry_def described_by_def
          plain_creation_info_def document_data_def only_type_def sanitize_node_id_def
          format_node_label_def label_lines_def header_lines_def cut_line_def plain_line_def
          escape_quotes_def)
  have np: "node_statements True False (''SPDXRef-A'', pkg_data (plain_package ''SPDXRef-A'' ''a'')) =
      [node_line ''A'' (join [nl] [''[Package]'', ''Name: a'']),
       style_line ''A'' ''fill:#f3e5f5,stroke:#4a148c,stroke-width:2px'']"
    by (simp add: Let_def node_statements_def plain_package_def pkg_data_def only_type_def
          sanitize_node_id_def format_node_label_def label_lines_def header_lines_def
          cut_line_def plain_line_def escape_quotes_def package_lines_def
          external_ref_lines_def external_ref_dicts_def)
  have nodes: "node_lines ?D True None False =
      [node_line ''DOCUMENT'' (join [nl] [''[Document]'', ''Name: doc'', ''Version: SPDX-2.3'']),
       style_line ''DOCUMENT'' ''fill:#e1f5ff,stroke:#01579b,stroke-width:3px'',
       node_line ''A'' (join [nl] [''[Package]'', ''Name: a'']),
       style_line ''A'' ''fill:#f3e5f5,stroke:#4a148c,stroke-width:2px'']"
    unfolding node_lines_def l by (simp only: list.map concat.simps nd np append.simps)
  have edges: "map edge_statement (relationships ?D) =
      [''    DOCUMENT -->|'' @ [dq] @ ''DESCRIBES'' @ [dq] @ ''| A'']"
    by (simp add: described_by_def edge_statement_def edge_label_def sanitize_node_id_def)
  have a: "ci_spdx_id (creation_info ?D) \<noteq> ''SPDXRef-DOCUMENT''"
    by (simp add: described_by_def plain_creation_info_def)
  have b: "map r_spdx_element_id (relationships ?D) = [ci_spdx_id (creation_info ?D)]"
    by (simp add: described_by_def plain_creation_info_def)
  have c: "diagram_lines ?D True None False =
      [''graph LR'',
       node_line ''DOCUMENT'' (join [nl] [''[Document]'', ''Name: doc'', ''Version: SPDX-2.3'']),
       style_line ''DOCUMENT'' ''fill:#e1f5ff,stroke:#01579b,stroke-width:3px'',
       node_line ''A'' (join [nl] [''[Package]'', ''Name: a'']),
       style_line ''A'' ''fill:#f3e5f5,stroke:#4a148c,stroke-width:2px'',
       ''    DOCUMENT -->|'' @ [dq] @ ''DESCRIBES'' @ [dq] @ ''| A'']
      @ legend_lines"
    unfolding diagram_lines_def nodes edges by simp
  show ?thesis using a b c by blast
qed

lemma dict_set_head:
  "k0 \<noteq> k \<Longrightarrow> dict_set k0 v0 ((k, v) # d) = (k, v) # dict_set k0 v0 d"
  by simp

lemma dict_set_head_key: "\<exists>v' d'. dict_set k0 v0 ((k, v) # d) = (k, v') # d'"
  by simp

lemma fold_dict_set_head_key:
  "\<exists>v' d'. fold (\<lambda>x. dict_set (key x) (val x)) xs ((k, v) # d) = (k, v') # d'"
proof (induction xs arbitrary: v d)
  case Nil
  then show ?case by simp
next
  case (Cons x xs)
  obtain v1 d1 where "dict_set (key x) (val x) ((k, v) # d) = (k, v1) # d1"
    using dict_set_head_key[of "key x" "val x" k v d] by blast
  then show ?case using Cons.IH[of v1 d1] by simp
qed

lemma fold_dict_set_head:
  "k \<notin> key ` set xs \<Longrightarrow>
   \<exists>d'. fold (\<lambda>x. dict_set (key x) (val x)) xs ((k, v) # d) = (k, v) # d'"
proof (induction xs arbitrary: d)
  case Nil
  then show ?case by simp
next
  case (Cons x xs)
  then have "key x \<noteq> k" and "k \<notin> key ` set xs" by auto
  then show ?case using Cons.IH[of "dict_set (key x) (val x) d"] by simp
qed

lemma extract_first_key:
  "map fst (take 1 (extract_elements_from_document doc)) = [''SPDXRef-DOCUMENT'']"
proof -
  let ?k = "''SPDXRef-DOCUMENT''"
  obtain v1 d1 where 1: "fold (\<lambda>p. dict_set (p_spdx_id p) (pkg_data p)) (packages doc)
      ((?k, document_data doc) # []) = (?k, v1) # d1"
    using fold_dict_set_head_key[where key = p_spdx_id and val = pkg_data] by blast
  obtain v2 d2 where 2: "fold (\<lambda>f. dict_set (f_spdx_id f) (file_data f)) (files doc)
      ((?k, v1) # d1) = (?k, v2) # d2"
    using fold_dict_set_head_key[where key = f_spdx_id and val = file_data] by blast
  obtain v3 d3 where 3: "fold (\<lambda>s. dict_set (s_spdx_id s) (snippet_data s)) (snippets doc)
      ((?k, v2) # d2) = (?k, v3) # d3"
    using fold_dict_set_head_key[where key = s_spdx_id and val = snippet_data] by blast
  have "extract_elements_from_document doc = (?k, v3) # d3"
    by (simp add: extract_elements_from_document_def 1 2 3)
  then show ?thesis by simp
qed

lemma extract_first_entry:
  assumes "''SPDXRef-DOCUMENT'' \<notin> set (map p_spdx_id (packages doc)
      @ map f_spdx_id (files doc) @ map s_spdx_id (snippets doc))"
  shows "\<exists>rest. extract_elements_from_document doc = document_entry doc # rest"
proof -
  let ?k = "''SPDXRef-DOCUMENT''"
  let ?v = "document_data doc"
  from assms have a: "?k \<notin> p_spdx_id ` set (packages doc)"
    "?k \<notin> f_spdx_id ` set (files doc)" "?k \<notin> s_spdx_id ` set (snippets doc)"
    by auto
  obtain d1 where 1: "fold (\<lambda>p. dict_set (p_spdx_id p) (pkg_data p)) (packages doc)
      ((?k, ?v) # []) = (?k, ?v) # d1"
    using fold_dict_set_head[OF a(1), where val = pkg_data] by blast
  obtain d2 where 2: "fold (\<lambda>f. dict_set (f_spdx_id f) (file_data f)) (files doc)
      ((?k, ?v) # d1) = (?k, ?v) # d2"
    using fold_dict_set_head[OF a(2), where val = file_data] by blast
  obtain d3 where 3: "fold (\<lambda>s. dict_set (s_spdx_id s) (snippet_data s)) (snippets doc)
      ((?k, ?v) # d2) = (?k, ?v) # d3"
    using fold_dict_set_head[OF a(3), where val = snippet_data] by blast
  have "extract_elements_from_document doc = (?k, ?v) # d3"
    by (simp add: extract_elements_from_document_def 1 2 3)
  then show ?thesis by (simp add: document_entry_def)
qed

lemma limit_packages_first:
  assumes "distinct (map fst (e # rest))" and "\<not> is_package e"
  shows "\<exists>rest'. limit_packages m (e # rest) = e # rest'"
proof (cases m)
  case None
  then show ?thesis by (simp add: limit_packages_def)
next
  case (Some n)
  show ?thesis
  proof (cases "int (length (filter is_package (e # rest))) > n")
    case True
    show ?thesis unfolding Some limit_packages_cut[OF assms(1) True] using assms(2) by simp
  next
    case False
    then show ?thesis unfolding Some by (simp add: limit_packages_keep)
  qed
qed

lemma document_statements:
  "node_statements c x (document_entry doc) =
     [node_line ''DOCUMENT''
        (format_node_label ''SPDXRef-DOCUMENT'' (document_data doc) ''Document'' c x),
      style_line ''DOCUMENT'' ''fill:#e1f5ff,stroke:#01579b,stroke-width:3px'']"
  by (simp add: node_statements_def Let_def document_entry_def sanitize_node_id_def)

lemma diagram_starts_with_document:
  assumes "''SPDXRef-DOCUMENT'' \<notin> set (map p_spdx_id (packages doc)
      @ map f_spdx_id (files doc) @ map s_spdx_id (snippets doc))"
  shows "\<exists>tail. generate_mermaid_diagram doc c m x =
      ''graph LR'' @ nl # node_line ''DOCUMENT''
          (format_node_label ''SPDXRef-DOCUMENT'' (document_data doc) ''Document'' c x)
        @ nl # style_line ''DOCUMENT'' ''fill:#e1f5ff,stroke:#01579b,stroke-width:3px''
        @ tail"
proof -
  obtain rest where E: "extract_elements_from_document doc = document_entry doc # rest"
    using extract_first_entry[OF assms] by blast
  have "distinct (map fst (document_entry doc # rest))"
    using extract_distinct[of doc] by (simp only: E)
  moreover have "\<not> is_package (document_entry doc)"
    by (simp add: is_package_def document_entry_def)
  ultimately obtain rest' where
    "limit_packages m (document_entry doc # rest) = document_entry doc # rest'"
    using limit_packages_first by blast
  then have "node_lines doc c m x =
      node_statements c x (document_entry doc) @ concat (map (node_statements c x) rest')"
    by (simp add: node_lines_def E)
  then show ?thesis
    by (simp add: generate_mermaid_diagram_def diagram_lines_def join_Cons document_statements)
qed

lemma sanitize_document_iff:
  "(sanitize_node_id i = ''DOCUMENT'') = (replace_str ''SPDXRef-'' '''' i = ''DOCUMENT'')"
proof
  assume "sanitize_node_id i = ''DOCUMENT''"
  then show "replace_str ''SPDXRef-'' '''' i = ''DOCUMENT''" by (rule sanitize_to_document)
next
  assume "replace_str ''SPDXRef-'' '''' i = ''DOCUMENT''"
  then show "sanitize_node_id i = ''DOCUMENT''" by (simp add: sanitize_node_id_map)
qed

text \<open>
  C10 (amended). The extractor stores the document under the fixed key
  \<open>SPDXRef-DOCUMENT\<close> and does not read the document's own identifier: that key is always
  the first of the dictionary, every emitted element of type Document is this entry, with
  the node identifier \<open>DOCUMENT\<close>, and when no package, file or snippet carries the
  identifier \<open>SPDXRef-DOCUMENT\<close> the diagram begins with the node and style statements
  of \<open>DOCUMENT\<close>. An edge names its endpoints by their sanitized identifiers, and an
  identifier is sanitized to \<open>DOCUMENT\<close> exactly when it is \<open>DOCUMENT\<close> after every
  occurrence of \<open>SPDXRef-\<close> is removed. So for a document whose own identifier, with
  every occurrence of \<open>SPDXRef-\<close> removed, is not \<open>DOCUMENT\<close>, an edge that names this
  identifier as source or target refers to a node identifier different from \<open>DOCUMENT\<close>.
\<close>

theorem document_node_identifier:
  "extract_elements_from_document
       (doc\<lparr>creation_info := (creation_info doc)\<lparr>ci_spdx_id := i\<rparr>\<rparr>)
     = extract_elements_from_document doc
   \<and> map fst (take 1 (extract_elements_from_document doc)) = [''SPDXRef-DOCUMENT'']
   \<and> (\<forall>kv \<in> set (limit_packages m (extract_elements_from_document doc)).
         etype (snd kv) = ''Document'' \<longrightarrow>
         kv = (''SPDXRef-DOCUMENT'', document_data doc)
         \<and> node_statements c x kv =
            [node_line ''DOCUMENT''
               (format_node_label ''SPDXRef-DOCUMENT'' (document_data doc) ''Document'' c x),
             style_line ''DOCUMENT'' ''fill:#e1f5ff,stroke:#01579b,stroke-width:3px''])
   \<and> (''SPDXRef-DOCUMENT'' \<notin> set (map p_spdx_id (packages doc)
          @ map f_spdx_id (files doc) @ map s_spdx_id (snippets doc)) \<longrightarrow>
        (\<exists>tail. generate_mermaid_diagram doc c m x =
           ''graph LR'' @ nl # node_line ''DOCUMENT''
               (format_node_label ''SPDXRef-DOCUMENT'' (document_data doc) ''Document'' c x)
             @ nl # style_line ''DOCUMENT'' ''fill:#e1f5ff,stroke:#01579b,stroke-width:3px''
             @ tail))
   \<and> (sanitize_node_id i = ''DOCUMENT'') = (replace_str ''SPDXRef-'' '''' i = ''DOCUMENT'')
   \<and> edge_statement r =
        ''    '' @ sanitize_node_id (r_spdx_element_id r) @ '' -->|'' @ [dq]
        @ edge_label r @ [dq] @ ''| '' @ sanitize_node_id (r_related_spdx_element_id r)
   \<and> (r_spdx_element_id r = ci_spdx_id (creation_info doc)
        \<and> replace_str ''SPDXRef-'' '''' (ci_spdx_id (creation_info doc)) \<noteq> ''DOCUMENT'' \<longrightarrow>
        sanitize_node_id (r_spdx_element_id r) \<noteq> ''DOCUMENT'')
   \<and> (r_related_spdx_element_id r = ci_spdx_id (creation_info doc)
        \<and> replace_str ''SPDXRef-'' '''' (ci_spdx_id (creation_info doc)) \<noteq> ''DOCUMENT'' \<longrightarrow>
        sanitize_node_id (r_related_spdx_element_id r) \<noteq> ''DOCUMENT'')"
proof -
  have c3: "\<forall>kv \<in> set (limit_packages m (extract_elements_from_document doc)).
         etype (snd kv) = ''Document'' \<longrightarrow>
         kv = (''SPDXRef-DOCUMENT'', document_data doc)
         \<and> node_statements c x kv =
            [node_line ''DOCUMENT''
               (format_node_label ''SPDXRef-DOCUMENT'' (document_data doc) ''Document'' c x),
             style_line ''DOCUMENT'' ''fill:#e1f5ff,stroke:#01579b,stroke-width:3px'']"
  proof (intro ballI impI)
    fix kv
    assume m: "kv \<in> set (limit_packages m (extract_elements_from_document doc))"
      and t: "etype (snd kv) = ''Document''"
    have "set (limit_packages m (extract_elements_from_document doc))
            \<subseteq> set (extract_elements_from_document doc)"
      using extract_distinct by (rule limit_packages_subset)
    with m have "(fst kv, snd kv) \<in> set (extract_elements_from_document doc)" by auto
    then have "(fst kv, snd kv) = document_entry doc \<or> etype (snd kv) \<noteq> ''Document''"
      by (rule extract_entries)
    with t have kv: "kv = document_entry doc" by (simp add: prod_eq_iff)
    show "kv = (''SPDXRef-DOCUMENT'', document_data doc)
         \<and> node_statements c x kv =
            [node_line ''DOCUMENT''
               (format_node_label ''SPDXRef-DOCUMENT'' (document_data doc) ''Document'' c x),
             style_line ''DOCUMENT'' ''fill:#e1f5ff,stroke:#01579b,stroke-width:3px'']"
      unfolding kv using document_statements[of c x doc] by (simp add: document_entry_def)
  qed
  have c4: "''SPDXRef-DOCUMENT'' \<notin> set (map p_spdx_id (packages doc)
          @ map f_spdx_id (files doc) @ map s_spdx_id (snippets doc)) \<longrightarrow>
        (\<exists>tail. generate_mermaid_diagram doc c m x =
           ''graph LR'' @ nl # node_line ''DOCUMENT''
               (format_node_label ''SPDXRef-DOCUMENT'' (document_data doc) ''Document'' c x)
             @ nl # style_line ''DOCUMENT'' ''fill:#e1f5ff,stroke:#01579b,stroke-width:3px''
             @ tail)"
    using diagram_starts_with_document by blast
  have c6: "edge_statement r =
        ''    '' @ sanitize_node_id (r_spdx_element_id r) @ '' -->|'' @ [dq]
        @ edge_label r @ [dq] @ ''| '' @ sanitize_node_id (r_related_spdx_element_id r)"
    by (simp add: edge_statement_def)
  have c7: "r_spdx_element_id r = ci_spdx_id (creation_info doc)
        \<and> replace_str ''SPDXRef-'' '''' (ci_spdx_id (creation_info doc)) \<noteq> ''DOCUMENT'' \<longrightarrow>
        sanitize_node_id (r_spdx_element_id r) \<noteq> ''DOCUMENT''"
    using sanitize_document_iff by auto
  have c8: "r_related_spdx_element_id r = ci_spdx_id (creation_info doc)
        \<and> replace_str ''SPDXRef-'' '''' (ci_spdx_id (creation_info doc)) \<noteq> ''DOCUMENT'' \<longrightarrow>
        sanitize_node_id (r_related_spdx_element_id r) \<noteq> ''DOCUMENT''"
    using sanitize_document_iff by auto
  show ?thesis
    by (intro conjI; (rule extract_ignores_document_id extract_first_key c3 c4
          sanitize_document_iff c6 c7 c8))
qed

text \<open>C10 (amended) at a document whose own identifier is \<open>SPDXRef-Doc1\<close>.\<close>

theorem document_node_identifier_witness:
  "document_entry (described_by ''SPDXRef-Doc1'')
     \<in> set (limit_packages None (extract_elements_from_document (described_by ''SPDXRef-Doc1'')))
   \<and> node_statements True False (document_entry (described_by ''SPDXRef-Doc1'')) =
       [node_line ''DOCUMENT''
          (format_node_label ''SPDXRef-DOCUMENT'' (document_data (described_by ''SPDXRef-Doc1''))
             ''Document'' True False),
        style_line ''DOCUMENT'' ''fill:#e1f5ff,stroke:#01579b,stroke-width:3px'']
   \<and> (\<exists>tail. generate_mermaid_diagram (described_by ''SPDXRef-Doc1'') True None False =
         ''graph LR'' @ nl # node_line ''DOCUMENT''
             (format_node_label ''SPDXRef-DOCUMENT''
                (document_data (described_by ''SPDXRef-Doc1'')) ''Document'' True False)
           @ nl # style_line ''DOCUMENT'' ''fill:#e1f5ff,stroke:#01579b,stroke-width:3px''
           @ tail)
   \<and> map r_spdx_element_id (relationships (described_by ''SPDXRef-Doc1''))
       = [ci_spdx_id (creation_info (described_by ''SPDXRef-Doc1''))]
   \<and> replace_str ''SPDXRef-'' '''' (ci_spdx_id (creation_info (described_by ''SPDXRef-Doc1'')))
       = ''Doc1''
   \<and> sanitize_node_id (ci_spdx_id (creation_info (described_by ''SPDXRef-Doc1''))) \<noteq> ''DOCUMENT''
   \<and> map edge_statement (relationships (described_by ''SPDXRef-Doc1''))
       = [''    Doc1 -->|'' @ [dq] @ ''DESCRIBES'' @ [dq] @ ''| A'']"
proof -
  let ?D = "described_by ''SPDXRef-Doc1''"
  let ?r = "\<lparr> r_spdx_element_id = ''SPDXRef-Doc1'', r_relationship_type = ''DESCRIBES'',
            r_related_spdx_element_id = ''SPDXRef-A'', r_comment = None \<rparr>"
  note T = document_node_identifier[where doc = ?D and m = None and c = True and x = False
      and r = ?r and i = "''SPDXRef-Doc1''"]
  have d: "distinct (element_ids ?D)"
    by (simp add: element_ids_def described_by_def plain_package_def)
  have h1: "document_entry ?D \<in> set (limit_packages None (extract_elements_from_document ?D))"
    unfolding limited_in_order[OF d] by simp
  have h2: "etype (snd (document_entry ?D)) = ''Document''"
    by (simp add: document_entry_def)
  from T h1 h2 have w2: "node_statements True False (document_entry ?D) =
       [node_line ''DOCUMENT''
          (format_node_label ''SPDXRef-DOCUMENT'' (document_data ?D) ''Document'' True False),
        style_line ''DOCUMENT'' ''fill:#e1f5ff,stroke:#01579b,stroke-width:3px'']"
    by blast
  have h3: "''SPDXRef-DOCUMENT'' \<notin> set (map p_spdx_id (packages ?D)
          @ map f_spdx_id (files ?D) @ map s_spdx_id (snippets ?D))"
    by (simp add: described_by_def plain_package_def)
  from T h3 have w3: "\<exists>tail. generate_mermaid_diagram ?D True None False =
         ''graph LR'' @ nl # node_line ''DOCUMENT''
             (format_node_label ''SPDXRef-DOCUMENT'' (document_data ?D) ''Document'' True False)
           @ nl # style_line ''DOCUMENT'' ''fill:#e1f5ff,stroke:#01579b,stroke-width:3px''
           @ tail"
    by blast
  have id: "ci_spdx_id (creation_info ?D) = ''SPDXRef-Doc1''"
    by (simp add: described_by_def plain_creation_info_def)
  have h4: "r_spdx_element_id ?r = ci_spdx_id (creation_info ?D)" by (simp add: id)
  have rep: "replace_str ''SPDXRef-'' '''' (ci_spdx_id (creation_info ?D)) = ''Doc1''"
    by (simp add: id)
  then have h5: "replace_str ''SPDXRef-'' '''' (ci_spdx_id (creation_info ?D)) \<noteq> ''DOCUMENT''"
    by simp
  from T h4 h5 have "sanitize_node_id (r_spdx_element_id ?r) \<noteq> ''DOCUMENT''" by blast
  then have ne: "sanitize_node_id (ci_spdx_id (creation_info ?D)) \<noteq> ''DOCUMENT''"
    by (simp add: id)
  from T have e: "edge_statement ?r =
        ''    '' @ sanitize_node_id (r_spdx_element_id ?r) @ '' -->|'' @ [dq]
        @ edge_label ?r @ [dq] @ ''| '' @ sanitize_node_id (r_related_spdx_element_id ?r)"
    by blast
  have rels: "relationships ?D = [?r]" by (simp add: described_by_def)
  have s1: "sanitize_node_id ''SPDXRef-Doc1'' = ''Doc1''"
    and s2: "sanitize_node_id ''SPDXRef-A'' = ''A''"
    by (simp_all add: sanitize_node_id_def)
  have e': "map edge_statement (relationships ?D)
       = [''    Doc1 -->|'' @ [dq] @ ''DESCRIBES'' @ [dq] @ ''| A'']"
    unfolding rels by (simp add: e s1 s2 edge_label_def)
  have b: "map r_spdx_element_id (relationships ?D) = [ci_spdx_id (creation_info ?D)]"
    by (simp add: rels id)
  show ?thesis using h1 w2 w3 b rep ne e' by blast
qed

section \<open>Truncation of label fields\<close>

lemma truncate_at_spec: "truncate_at L (L - 3) s = spec_truncate L s"
  by (simp add: truncate_at_def spec_truncate_def)

lemma truncate_at_60: "truncate_at 60 57 s = spec_truncate 60 s"
  using truncate_at_spec[of 60 s] by simp

lemma truncate_at_50: "truncate_at 50 47 s = spec_truncate 50 s"
  using truncate_at_spec[of 50 s] by simp

lemma truncate_at_40: "truncate_at 40 37 s = spec_truncate 40 s"
  using truncate_at_spec[of 40 s] by simp

lemma spec_truncate_long:
  assumes "3 \<le> L" and "L < length s"
  shows "spec_truncate L s = take (L - 3) s @ ''...''" and "length (spec_truncate L s) = L"
  using assms by (simp_all add: spec_truncate_def)

lemma spec_truncate_short: "length s \<le> L \<Longrightarrow> spec_truncate L s = s"
  by (simp add: spec_truncate_def)

lemma escape_spec_truncate:
  "escape_quotes (spec_truncate L s) = spec_truncate L (escape_quotes s)"
  by (simp add: spec_truncate_def escape_quotes_map take_map)

lemma cut_line_some:
  "truthy e = Some v \<Longrightarrow> cut_line label L (L - 3) e = [label @ spec_truncate L (escape_quotes v)]"
  by (simp add: cut_line_def truncate_at_spec)

lemma plain_line_some:
  "truthy e = Some v \<Longrightarrow> plain_line label e = [label @ escape_quotes v]"
  by (simp add: plain_line_def)

lemma set_label_lines:
  "set (label_lines i d t c x) =
     set (header_lines i d t)
     \<union> set (cut_line ''Summary: '' 60 57 (summary d))
     \<union> set (plain_line ''Version: '' (version d))
     \<union> set (plain_line ''License: '' (licenseConcluded d))
     \<union> set (cut_line ''License Note: '' 60 57 (licenseComments d))
     \<union> (if \<not> c then set (optional_lines d) else {})
     \<union> (if t = ''Document'' \<and> \<not> c then set (document_lines d) else {})
     \<union> (if t = ''Package'' then set (package_lines d c x) else {})"
  by (simp add: label_lines_def Un_assoc)

lemma set_optional_lines:
  "set (optional_lines d) =
     set (cut_line ''Download: '' 50 47 (downloadLocation d))
     \<union> set (plain_line ''Supplier: '' (supplier d))
     \<union> set (plain_line ''Originator: '' (originator d))
     \<union> set (files_analyzed_lines (filesAnalyzed d))
     \<union> set (verification_lines (verificationCode d))
     \<union> set (checksum_lines (checksums d))
     \<union> set (cut_line ''Copyright: '' 40 37 (copyrightText d))
     \<union> set (cut_line ''Comment: '' 50 47 (comment d))
     \<union> set (plain_line ''Homepage: '' (homepage d))"
  by (simp add: optional_lines_def Un_assoc)

lemma set_document_lines:
  "set (document_lines d) =
     set (plain_line ''Created: '' (created d))
     \<union> set (creators_lines (creators d))
     \<union> set (cut_line ''Namespace: '' 50 47 (namespace d))
     \<union> set (plain_line ''Data License: '' (dataLicense d))"
  by (simp add: document_lines_def Un_assoc)

lemma set_package_lines:
  "set (package_lines d c x) =
     (if \<not> c then set (plain_line ''License Declared: '' (licenseDeclared d)) else {})
     \<union> (if \<not> c then set (cut_line ''Package File: '' 50 47 (packageFileName d)) else {})
     \<union> (if \<not> x then set (external_ref_lines c (externalRefs d)) else {})"
  by (auto simp: package_lines_def)

lemma cut_60: "truthy e = Some v \<Longrightarrow>
    set (cut_line label 60 57 e) = {label @ spec_truncate 60 (escape_quotes v)}"
  using cut_line_some[of e v label 60] by simp

lemma cut_50: "truthy e = Some v \<Longrightarrow>
    set (cut_line label 50 47 e) = {label @ spec_truncate 50 (escape_quotes v)}"
  using cut_line_some[of e v label 50] by simp

lemma cut_40: "truthy e = Some v \<Longrightarrow>
    set (cut_line label 40 37 e) = {label @ spec_truncate 40 (escape_quotes v)}"
  using cut_line_some[of e v label 40] by simp

lemma external_ref_line_spec:
  "external_ref_line r =
     referenceType r @ '': '' @ spec_truncate 40 (escape_quotes (referenceLocator r))"
  by (simp add: external_ref_line_def truncate_at_40 escape_spec_truncate)

lemma external_ref_member:
  assumes "truthy e = Some rs" and "r \<in> set (take (if c then 1 else 2) rs)"
  shows "referenceType r @ '': '' @ spec_truncate 40 (escape_quotes (referenceLocator r))
           \<in> set (external_ref_lines c e)"
proof -
  have "external_ref_line r \<in> external_ref_line ` set (take (if c then 1 else 2) rs)"
    using assms(2) by (rule imageI)
  then show ?thesis using assms(1)
    by (simp add: external_ref_lines_def external_ref_line_spec)
qed

lemma checksum_member:
  assumes "truthy e = Some ks" and "k \<in> set (take 2 ks)"
  shows "algorithm k @ '': '' @ take 12 (checksumValue k) @ ''...'' \<in> set (checksum_lines e)"
proof -
  have "checksum_line k \<in> checksum_line ` set (take 2 ks)"
    using assms(2) by (rule imageI)
  then show ?thesis using assms(1) by (simp add: checksum_lines_def checksum_line_def)
qed

lemma creators_member:
  assumes "truthy e = Some cs"
  shows "set (creators_lines e) = {''Creators: '' @ spec_truncate 50 (escape_quotes (join '', '' cs))}"
  using assms by (simp add: creators_lines_def truncate_at_50 escape_spec_truncate)

text \<open>
  C3 (amended). The truncated string fields follow the rule of the specification: the
  rendered value of the summary and the license note (limit 60), of the download
  location, the comment, the namespace, the joined creators and the package file name
  (limit 50), and of the copyright and the locator of an external reference (limit 40)
  is the quote-escaped value when that has at most \<open>L\<close> characters, and otherwise its
  first \<open>L - 3\<close> characters followed by three dots, of length exactly \<open>L\<close>. A checksum
  value is rendered otherwise: its first twelve characters, always followed by three dots.
\<close>

theorem truncation_of_label_fields:
  "(3 \<le> L \<and> L < length s \<longrightarrow>
      spec_truncate L s = take (L - 3) s @ ''...'' \<and> length (spec_truncate L s) = L)
   \<and> (length s \<le> L \<longrightarrow> spec_truncate L s = s)
   \<and> (truthy (summary d) = Some v \<longrightarrow>
        ''Summary: '' @ spec_truncate 60 (escape_quotes v) \<in> set (label_lines i d t c x))
   \<and> (truthy (licenseComments d) = Some v \<longrightarrow>
        ''License Note: '' @ spec_truncate 60 (escape_quotes v) \<in> set (label_lines i d t c x))
   \<and> (\<not> c \<and> truthy (downloadLocation d) = Some v \<longrightarrow>
        ''Download: '' @ spec_truncate 50 (escape_quotes v) \<in> set (label_lines i d t c x))
   \<and> (\<not> c \<and> truthy (copyrightText d) = Some v \<longrightarrow>
        ''Copyright: '' @ spec_truncate 40 (escape_quotes v) \<in> set (label_lines i d t c x))
   \<and> (\<not> c \<and> truthy (comment d) = Some v \<longrightarrow>
        ''Comment: '' @ spec_truncate 50 (escape_quotes v) \<in> set (label_lines i d t c x))
   \<and> (\<not> c \<and> t = ''Document'' \<and> truthy (namespace d) = Some v \<longrightarrow>
        ''Namespace: '' @ spec_truncate 50 (escape_quotes v) \<in> set (label_lines i d t c x))
   \<and> (\<not> c \<and> t = ''Document'' \<and> truthy (creators d) = Some cs \<longrightarrow>
        ''Creators: '' @ spec_truncate 50 (escape_quotes (join '', '' cs))
          \<in> set (label_lines i d t c x))
   \<and> (\<not> c \<and> t = ''Package'' \<and> truthy (packageFileName d) = Some v \<longrightarrow>
        ''Package File: '' @ spec_truncate 50 (escape_quotes v) \<in> set (label_lines i d t c x))
   \<and> (\<not> x \<and> t = ''Package'' \<and> truthy (externalRefs d) = Some rs
        \<and> r \<in> set (take (if c then 1 else 2) rs) \<longrightarrow>
        referenceType r @ '': '' @ spec_truncate 40 (escape_quotes (referenceLocator r))
          \<in> set (label_lines i d t c x))
   \<and> (\<not> c \<and> truthy (checksums d) = Some ks \<and> k \<in> set (take 2 ks) \<longrightarrow>
        algorithm k @ '': '' @ take 12 (checksumValue k) @ ''...''
          \<in> set (label_lines i d t c x))"
proof -
  have a: "3 \<le> L \<and> L < length s \<longrightarrow>
      spec_truncate L s = take (L - 3) s @ ''...'' \<and> length (spec_truncate L s) = L"
    using spec_truncate_long[of L s] by blast
  have b: "length s \<le> L \<longrightarrow> spec_truncate L s = s"
    using spec_truncate_short by blast
  have f1: "truthy (summary d) = Some v \<longrightarrow>
        ''Summary: '' @ spec_truncate 60 (escape_quotes v) \<in> set (label_lines i d t c x)"
    by (simp add: set_label_lines cut_60)
  have f2: "truthy (licenseComments d) = Some v \<longrightarrow>
        ''License Note: '' @ spec_truncate 60 (escape_quotes v) \<in> set (label_lines i d t c x)"
    by (simp add: set_label_lines cut_60)
  have f3: "\<not> c \<and> truthy (downloadLocation d) = Some v \<longrightarrow>
        ''Download: '' @ spec_truncate 50 (escape_quotes v) \<in> set (label_lines i d t c x)"
    by (simp add: set_label_lines set_optional_lines cut_50)
  have f4: "\<not> c \<and> truthy (copyrightText d) = Some v \<longrightarrow>
        ''Copyright: '' @ spec_truncate 40 (escape_quotes v) \<in> set (label_lines i d t c x)"
    by (simp add: set_label_lines set_optional_lines cut_40)
  have f5: "\<not> c \<and> truthy (comment d) = Some v \<longrightarrow>
        ''Comment: '' @ spec_truncate 50 (escape_quotes v) \<in> set (label_lines i d t c x)"
    by (simp add: set_label_lines set_optional_lines cut_50)
  have f6: "\<not> c \<and> t = ''Document'' \<and> truthy (namespace d) = Some v \<longrightarrow>
        ''Namespace: '' @ spec_truncate 50 (escape_quotes v) \<in> set (label_lines i d t c x)"
    by (simp add: set_label_lines set_document_lines cut_50)
  have f7: "\<not> c \<and> t = ''Document'' \<and> truthy (creators d) = Some cs \<longrightarrow>
        ''Creators: '' @ spec_truncate 50 (escape_quotes (join '', '' cs))
          \<in> set (label_lines i d t c x)"
    by (simp add: set_label_lines set_document_lines creators_member)
  have f8: "\<not> c \<and> t = ''Package'' \<and> truthy (packageFileName d) = Some v \<longrightarrow>
        ''Package File: '' @ spec_truncate 50 (escape_quotes v) \<in> set (label_lines i d t c x)"
    by (simp add: set_label_lines set_package_lines cut_50)
  have f9: "\<not> x \<and> t = ''Package'' \<and> truthy (externalRefs d) = Some rs
        \<and> r \<in> set (take (if c then 1 else 2) rs) \<longrightarrow>
        referenceType r @ '': '' @ spec_truncate 40 (escape_quotes (referenceLocator r))
          \<in> set (label_lines i d t c x)"
    using external_ref_member[of "externalRefs d" rs r c]
    by (simp add: set_label_lines set_package_lines)
  have f10: "\<not> c \<and> truthy (checksums d) = Some ks \<and> k \<in> set (take 2 ks) \<longrightarrow>
        algorithm k @ '': '' @ take 12 (checksumValue k) @ ''...''
          \<in> set (label_lines i d t c x)"
    using checksum_member[of "checksums d" ks k]
    by (simp add: set_label_lines set_optional_lines)
  show ?thesis
    using a b f1 f2 f3 f4 f5 f6 f7 f8 f9 f10 by blast
qed

text \<open>
  C3 as stated fails. A checksum value of three characters, which is below every limit, is rendered with
  three dots appended; a value of sixteen characters keeps its first twelve characters,
  not all but three of a limit.
\<close>

theorem checksum_rendering_counterexample:
  "format_node_label ''SPDXRef-F'' (file_data short_checksum_file) ''File'' False False
     = join [nl] [''[File]'', ''Name: f'', ''ChecksumAlgorithm.SHA1: abc...'']
   \<and> length ''abc'' \<le> 12
   \<and> checksum_line \<lparr> algorithm = ''ChecksumAlgorithm.MD5'', checksumValue = ''0123456789abcdef'' \<rparr>
     = ''ChecksumAlgorithm.MD5: 0123456789ab...''"
  by (simp add: format_node_label_def label_lines_def header_lines_def cut_line_def
        plain_line_def optional_lines_def files_analyzed_lines_def verification_lines_def
        checksum_lines_def checksum_line_def checksum_dicts_def file_data_def
        short_checksum_file_def plain_file_def only_type_def escape_quotes_def)

text \<open>
  C3 (amended) at a package whose summary has 61 characters and whose download location
  has 11.
\<close>

theorem truncation_of_label_fields_witness:
  "length (escape_quotes long_summary) = 61
   \<and> ''Summary: '' @ take 57 (escape_quotes long_summary) @ ''...''
       \<in> set (label_lines ''SPDXRef-P'' (pkg_data long_summary_package) ''Package'' False False)
   \<and> length (take 57 (escape_quotes long_summary) @ ''...'') = 60
   \<and> ''Download: NOASSERTION''
       \<in> set (label_lines ''SPDXRef-P'' (pkg_data long_summary_package) ''Package'' False False)
   \<and> ''ChecksumAlgorithm.MD5: 0123456789ab...''
       \<in> set (label_lines ''SPDXRef-P'' (pkg_data long_summary_package) ''Package'' False False)"
proof -
  let ?d = "pkg_data long_summary_package"
  let ?k = "\<lparr> algorithm = ''ChecksumAlgorithm.MD5'', checksumValue = ''0123456789abcdef'' \<rparr>"
  note T = truncation_of_label_fields[where L = 60 and s = "escape_quotes long_summary"
      and d = ?d and v = long_summary and i = "''SPDXRef-P''" and t = "''Package''"
      and c = False and x = False and ks = "[?k]" and k = ?k]
  note U = truncation_of_label_fields[where L = 50 and s = "escape_quotes ''NOASSERTION''"
      and d = ?d and v = "''NOASSERTION''" and i = "''SPDXRef-P''" and t = "''Package''"
      and c = False and x = False]
  have len: "length (escape_quotes long_summary) = 61" by (simp add: long_summary_def)
  have h1: "truthy (summary ?d) = Some long_summary"
    by (simp add: pkg_data_def long_summary_package_def plain_package_def long_summary_def)
  have h2: "truthy (checksums ?d) = Some [?k]"
    by (simp add: pkg_data_def long_summary_package_def plain_package_def checksum_dicts_def)
  have h3: "truthy (downloadLocation ?d) = Some ''NOASSERTION''"
    by (simp add: pkg_data_def long_summary_package_def plain_package_def)
  from T len have cut: "spec_truncate 60 (escape_quotes long_summary)
      = take 57 (escape_quotes long_summary) @ ''...''"
    and l60: "length (spec_truncate 60 (escape_quotes long_summary)) = 60" by simp_all
  from T h1 have "''Summary: '' @ spec_truncate 60 (escape_quotes long_summary)
      \<in> set (label_lines ''SPDXRef-P'' ?d ''Package'' False False)" by blast
  then have m1: "''Summary: '' @ take 57 (escape_quotes long_summary) @ ''...''
      \<in> set (label_lines ''SPDXRef-P'' ?d ''Package'' False False)" by (simp only: cut)
  from l60 have l: "length (take 57 (escape_quotes long_summary) @ ''...'') = 60"
    by (simp only: cut)
  from U have keep: "spec_truncate 50 (escape_quotes ''NOASSERTION'') = ''NOASSERTION''"
    by (simp add: escape_quotes_def)
  from U h3 have "''Download: '' @ spec_truncate 50 (escape_quotes ''NOASSERTION'')
      \<in> set (label_lines ''SPDXRef-P'' ?d ''Package'' False False)" by blast
  then have m2: "''Download: NOASSERTION''
      \<in> set (label_lines ''SPDXRef-P'' ?d ''Package'' False False)" by (simp add: keep)
  from T h2 have "algorithm ?k @ '': '' @ take 12 (checksumValue ?k) @ ''...''
      \<in> set (label_lines ''SPDXRef-P'' ?d ''Package'' False False)" by simp
  then have m3: "''ChecksumAlgorithm.MD5: 0123456789ab...''
      \<in> set (label_lines ''SPDXRef-P'' ?d ''Package'' False False)" by simp
  show ?thesis using len m1 l m2 m3 by blast
qed

section \<open>Quote escaping in labels\<close>

lemma escape_quotes_no_quote: "dq \<notin> set (escape_quotes s)"
  by (auto simp: escape_quotes_map)

lemma escape_quotes_other: "dq \<notin> set s \<Longrightarrow> escape_quotes s = s"
  by (induction s) (auto simp: escape_quotes_map)

text \<open>
  C4. Every value embedded in a label has its double quotes replaced before embedding.
  The formatter does not do so for the package purpose of the header line, nor for the
  verification code: at an element dictionary whose purpose holds a double quote, and at
  the extracted data of a package whose verification code holds one, the label holds the
  double quote, and so does the node statement, between the quotes that delimit the label.
\<close>

theorem unescaped_quote_in_label:
  "format_node_label ''SPDXRef-P'' quoted_purpose_data ''Package'' True False
     = join [nl] [''[Package - LIB'' @ [dq] @ ''RARY]'', ''Name: p'']
   \<and> format_node_label ''SPDXRef-P'' (pkg_data quoted_code_package) ''Package'' False False
     = join [nl] [''[Package]'', ''Name: p'', ''Download: NOASSERTION'', ''Files Analyzed: True'',
         ''Verification: a'' @ [dq] @ ''b'']
   \<and> node_statements False False (''SPDXRef-P'', pkg_data quoted_code_package)
     = [''    P['' @ [dq] @ ''[Package]'' @ [nl] @ ''Name: p'' @ [nl]
          @ ''Download: NOASSERTION'' @ [nl] @ ''Files Analyzed: True'' @ [nl]
          @ ''Verification: a'' @ [dq] @ ''b'' @ [dq] @ '']'',
        ''    style P fill:#f3e5f5,stroke:#4a148c,stroke-width:2px'']"
proof -
  have a: "format_node_label ''SPDXRef-P'' quoted_purpose_data ''Package'' True False
     = join [nl] [''[Package - LIB'' @ [dq] @ ''RARY]'', ''Name: p'']"
    by (simp add: format_node_label_def label_lines_def header_lines_def cut_line_def
          plain_line_def package_lines_def external_ref_lines_def quoted_purpose_data_def
          only_type_def escape_quotes_def)
  have b: "format_node_label ''SPDXRef-P'' (pkg_data quoted_code_package) ''Package'' False False
     = join [nl] [''[Package]'', ''Name: p'', ''Download: NOASSERTION'', ''Files Analyzed: True'',
         ''Verification: a'' @ [dq] @ ''b'']"
    by (simp add: format_node_label_def label_lines_def header_lines_def cut_line_def
          plain_line_def optional_lines_def files_analyzed_lines_def verification_lines_def
          checksum_lines_def checksum_dicts_def package_lines_def external_ref_lines_def
          external_ref_dicts_def pkg_data_def quoted_code_package_def plain_package_def
          only_type_def escape_quotes_def truncate_at_def)
  have t: "etype (pkg_data quoted_code_package) = ''Package''"
    and p: "truthy (primaryPackagePurpose (pkg_data quoted_code_package)) = None"
    by (simp_all add: pkg_data_def quoted_code_package_def plain_package_def only_type_def)
  have c: "node_statements False False (''SPDXRef-P'', pkg_data quoted_code_package)
     = [''    P['' @ [dq] @ ''[Package]'' @ [nl] @ ''Name: p'' @ [nl]
          @ ''Download: NOASSERTION'' @ [nl] @ ''Files Analyzed: True'' @ [nl]
          @ ''Verification: a'' @ [dq] @ ''b'' @ [dq] @ '']'',
        ''    style P fill:#f3e5f5,stroke:#4a148c,stroke-width:2px'']"
    by (simp add: node_statements_def Let_def t p b node_line_def style_line_def
          sanitize_node_id_def)
  show ?thesis using a b c by blast
qed

section \<open>Absent and empty attributes\<close>















































lemma truthy_str_or_none [simp]: "truthy (str_or_none a) = nonempty a"
  by (cases a) simp_all

lemma truthy_obj_or_none [simp]: "truthy (obj_or_none a) = nonempty a"
  by (cases a) simp_all

lemma str_or_none_present [simp]: "str_or_none a \<noteq> Absent" "Absent \<noteq> str_or_none a"
  by (cases a; simp)+

lemma obj_or_none_present [simp]: "obj_or_none a \<noteq> Absent" "Absent \<noteq> obj_or_none a"
  by (cases a; simp)+







section \<open>The timestamp pattern\<close>















lemma not_before_Z_append: "us \<noteq> [] \<Longrightarrow> not_before_Z (us @ xs) = not_before_Z (us @ ys)"
  by (cases us) simp_all






lemma lower_json: "lower ''.json'' = ''.json''"
  by (simp add: lower_def lower_char_def)

lemma universal_newlines_plain: "CHR 0x0D \<notin> set s \<Longrightarrow> universal_newlines s = s"
  by (induction s rule: universal_newlines.induct) auto


lemma write_text_mode_posix: "write_text_mode [nl] s = s"
  by (simp add: write_text_mode_def replace_str_char map_idI)

lemma unpatched_read: "universal_newlines unpatched_text = unpatched_text"
  by (rule universal_newlines_plain) (simp add: unpatched_text_def)






section \<open>The temporary file in the main flow\<close>

lemma main_flow_parse_fault:
  assumes "lower (path_suffix (arg_spdx_file args)) = ''.json''"
    and "fs (path_str (arg_spdx_file args)) = Some raw"
    and "re_search (universal_newlines raw)" and "t \<notin> dom fs"
    and "parse t (write_text_mode linesep (re_sub (universal_newlines raw))) = None"
  shows "main_flow parse linesep (Some t) fs args
      = (1, fs(t \<mapsto> write_text_mode linesep (re_sub (universal_newlines raw))))"
proof -
  have p: "preprocess_spdx_file linesep (Some t) fs (arg_spdx_file args)
      = (\<lparr> path_str = t, path_suffix = ''.json'' \<rparr>,
         fs(t \<mapsto> write_text_mode linesep (re_sub (universal_newlines raw))), False)"
    using assms(1-3) by (simp add: preprocess_spdx_file_def)
  have d: "path_str (arg_spdx_file args) \<in> dom fs" using assms(2) by auto
  show ?thesis using d assms(5) by (simp add: main_flow_def p parse_file_def)
qed

lemma main_flow_parsed:
  assumes "lower (path_suffix (arg_spdx_file args)) = ''.json''"
    and "fs (path_str (arg_spdx_file args)) = Some raw"
    and "re_search (universal_newlines raw)" and "t \<notin> dom fs"
    and "parse t (write_text_mode linesep (re_sub (universal_newlines raw))) = Some doc"
    and "arg_output args = None"
  shows "main_flow parse linesep (Some t) fs args = (0, fs)"
proof -
  have p: "preprocess_spdx_file linesep (Some t) fs (arg_spdx_file args)
      = (\<lparr> path_str = t, path_suffix = ''.json'' \<rparr>,
         fs(t \<mapsto> write_text_mode linesep (re_sub (universal_newlines raw))), False)"
    using assms(1-3) by (simp add: preprocess_spdx_file_def)
  have d: "path_str (arg_spdx_file args) \<in> dom fs" using assms(2) by auto
  have "path_str \<lparr> path_str = t, path_suffix = ''.json'' \<rparr> \<noteq> path_str (arg_spdx_file args)"
    using assms(4) d by auto
  then have ne: "\<lparr> path_str = t, path_suffix = ''.json'' \<rparr> \<noteq> arg_spdx_file args"
    by metis
  have undo: "fs(t := None) = fs"
    using assms(4) by (auto simp: fun_eq_iff)
  show ?thesis
    using d assms(5,6) ne by (simp add: main_flow_def p parse_file_def Let_def undo)
qed

text \<open>
  C8. The temporary file is to be removed after parsing whether parsing succeeds or
  raises. When the parser raises on the patched text, the main flow exits with code 1 and
  the temporary file is still there; it is removed only when parsing succeeds
  (\<open>main_flow_parsed\<close>).
\<close>

theorem temp_file_left_after_parse_fault:
  "main_flow (\<lambda>file_name content. None) [nl] (Some temp_name)
     [''in.spdx.json'' \<mapsto> unpatched_text] example_arguments
     = (1, [''in.spdx.json'' \<mapsto> unpatched_text, temp_name \<mapsto> patched_text])
   \<and> temp_name \<notin> dom [''in.spdx.json'' \<mapsto> unpatched_text]
   \<and> temp_name \<in> dom [''in.spdx.json'' \<mapsto> unpatched_text, temp_name \<mapsto> patched_text]"
proof -
  have s: "re_search (universal_newlines unpatched_text)"
    unfolding unpatched_read
    by (simp add: unpatched_text_def match_at_def timestamp_pattern_def timestamp_group_def
          is_digit_def)
  have r: "re_sub unpatched_text = patched_text"
    by (simp add: unpatched_text_def patched_text_def match_at_def timestamp_pattern_def
          timestamp_group_def is_digit_def)
  have j: "lower (path_suffix (arg_spdx_file example_arguments)) = ''.json''"
    by (simp add: example_arguments_def input_path_def lower_json)
  have f: "[''in.spdx.json'' \<mapsto> unpatched_text] (path_str (arg_spdx_file example_arguments))
      = Some unpatched_text"
    by (simp add: example_arguments_def input_path_def)
  have fresh: "temp_name \<notin> dom [''in.spdx.json'' \<mapsto> unpatched_text]"
    by (simp add: temp_name_def)
  have "main_flow (\<lambda>file_name content. None) [nl] (Some temp_name)
     [''in.spdx.json'' \<mapsto> unpatched_text] example_arguments
     = (1, [''in.spdx.json'' \<mapsto> unpatched_text,
            temp_name \<mapsto> write_text_mode [nl] (re_sub (universal_newlines unpatched_text))])"
    using j f s fresh by (rule main_flow_parse_fault) simp
  then show ?thesis using fresh by (simp add: r unpatched_read write_text_mode_posix)
qed

end
